theory Spec2Isabelle
  imports Main "HOL-Library.Word" "HOL-Library.AList"
begin

section \<open>Python values used by the AST scanner\<close>

text \<open>
  The development embeds \<^verbatim>\<open>scan_project_ASTGemini.py\<close>. File contents are
  Python \<^verbatim>\<open>bytes\<close>; decoded text (\<^verbatim>\<open>str\<close>) is a sequence of Unicode code
  points. The configuration strings of the script (entity kinds, query patterns,
  capture labels, extensions, paths) are ASCII and are kept as HOL strings.
\<close>

type_synonym byte = "8 word"
type_synonym pystr = "nat list"

text \<open>The exceptions that can travel through the modelled code.\<close>

datatype exn =
    AttributeError
  | KeyError
  | ValueError
  | TypeError
  | UnicodeDecodeError
  | LibraryError string

text \<open>
  \<^verbatim>\<open>content_bytes[a:b]\<close> for non-negative \<open>a\<close> and \<open>b\<close>: the slice is clamped to the
  sequence and is empty when \<open>b \<le> a\<close>.
\<close>

definition py_slice :: "'a list \<Rightarrow> nat \<Rightarrow> nat \<Rightarrow> 'a list" where
  "py_slice xs a b = take (b - a) (drop a xs)"

subsection \<open>\<^verbatim>\<open>bytes.decode('utf-8', errors)\<close>\<close>

text \<open>
  The script decodes with \<^verbatim>\<open>.decode('utf-8', 'ignore')\<close>. The decoder is the
  interpreter's; it is modelled here with its three standard error handlers so that
  the handler the script selects can be told apart from the others. One step of the
  decoder looks at the head of the remaining input and either yields a code point and
  the number of bytes it took, or reports an erroneous run: an invalid start byte (one
  byte), an invalid continuation byte (the run consists of the bytes before it), or an
  unexpected end of data (the run extends to the end of the input).
\<close>

datatype errors = Strict | Ignore | Replace

datatype utf8_result =
    Decoded nat nat
  | InvalidStart
  | InvalidContinuation nat
  | UnexpectedEnd

definition is_continuation_byte :: "byte \<Rightarrow> bool" where
  "is_continuation_byte ch = (0x80 \<le> ch \<and> ch < 0xC0)"

definition utf8_two :: "byte \<Rightarrow> byte list \<Rightarrow> utf8_result" where
  "utf8_two ch rest =
     (if ch < 0xC2 then InvalidStart
      else case rest of
        [] \<Rightarrow> UnexpectedEnd
      | ch2 # _ \<Rightarrow>
          if \<not> is_continuation_byte ch2 then InvalidContinuation 1
          else Decoded (unat ch * 64 + unat ch2 - (0xC0 * 64 + 0x80)) 2)"

definition utf8_three :: "byte \<Rightarrow> byte list \<Rightarrow> utf8_result" where
  "utf8_three ch rest =
     (case rest of
        [] \<Rightarrow> UnexpectedEnd
      | [ch2] \<Rightarrow>
          if \<not> is_continuation_byte ch2 \<or> (if ch2 < 0xA0 then ch = 0xE0 else ch = 0xED)
          then InvalidContinuation 1 else UnexpectedEnd
      | ch2 # ch3 # _ \<Rightarrow>
          if \<not> is_continuation_byte ch2 then InvalidContinuation 1
          else if ch = 0xE0 \<and> ch2 < 0xA0 then InvalidContinuation 1
          else if ch \<noteq> 0xE0 \<and> ch = 0xED \<and> 0xA0 \<le> ch2 then InvalidContinuation 1
          else if \<not> is_continuation_byte ch3 then InvalidContinuation 2
          else Decoded (unat ch * 4096 + unat ch2 * 64 + unat ch3
                        - (0xE0 * 4096 + 0x80 * 64 + 0x80)) 3)"

definition utf8_four :: "byte \<Rightarrow> byte list \<Rightarrow> utf8_result" where
  "utf8_four ch rest =
     (case rest of
        [] \<Rightarrow> UnexpectedEnd
      | [ch2] \<Rightarrow>
          if \<not> is_continuation_byte ch2 \<or> (if ch2 < 0x90 then ch = 0xF0 else ch = 0xF4)
          then InvalidContinuation 1 else UnexpectedEnd
      | [ch2, ch3] \<Rightarrow>
          if \<not> is_continuation_byte ch2 \<or> (if ch2 < 0x90 then ch = 0xF0 else ch = 0xF4)
          then InvalidContinuation 1
          else if \<not> is_continuation_byte ch3 then InvalidContinuation 2
          else UnexpectedEnd
      | ch2 # ch3 # ch4 # _ \<Rightarrow>
          if \<not> is_continuation_byte ch2 then InvalidContinuation 1
          else if ch = 0xF0 \<and> ch2 < 0x90 then InvalidContinuation 1
          else if ch \<noteq> 0xF0 \<and> ch = 0xF4 \<and> 0x90 \<le> ch2 then InvalidContinuation 1
          else if \<not> is_continuation_byte ch3 then InvalidContinuation 2
          else if \<not> is_continuation_byte ch4 then InvalidContinuation 3
          else Decoded (unat ch * 262144 + unat ch2 * 4096 + unat ch3 * 64 + unat ch4
                        - (0xF0 * 262144 + 0x80 * 4096 + 0x80 * 64 + 0x80)) 4)"

definition utf8_decode :: "byte \<Rightarrow> byte list \<Rightarrow> utf8_result" where
  "utf8_decode ch rest =
     (if ch < 0x80 then Decoded (unat ch) 1
      else if ch < 0xE0 then utf8_two ch rest
      else if ch < 0xF0 then utf8_three ch rest
      else if ch < 0xF5 then utf8_four ch rest
      else InvalidStart)"

text \<open>
  What the decoder does with the head of the input under an error handler: write a code
  point and advance (\<open>Emit\<close>), advance without writing (\<open>Skip\<close>), or raise. The
  number of bytes to advance by counts the head byte, so it is at least one; the loop
  below therefore drops one byte less from the tail.
\<close>

datatype advance = Emit nat nat | Skip nat | Raise

definition utf8_advance :: "errors \<Rightarrow> byte \<Rightarrow> byte list \<Rightarrow> advance" where
  "utf8_advance errs ch rest =
     (case utf8_decode ch rest of
        Decoded cp n \<Rightarrow> Emit cp (max 1 n)
      | bad \<Rightarrow>
          (let run = (case bad of
                        InvalidContinuation k \<Rightarrow> max 1 k
                      | UnexpectedEnd \<Rightarrow> Suc (length rest)
                      | _ \<Rightarrow> 1)
           in case errs of
                Strict \<Rightarrow> Raise
              | Ignore \<Rightarrow> Skip run
              | Replace \<Rightarrow> Emit 0xFFFD run))"

function decode :: "errors \<Rightarrow> byte list \<Rightarrow> exn + pystr" where
  "decode errs [] = Inr []"
| "decode errs (ch # rest) =
     (case utf8_advance errs ch rest of
        Raise \<Rightarrow> Inl UnicodeDecodeError
      | Skip n \<Rightarrow> decode errs (drop (n - 1) rest)
      | Emit cp n \<Rightarrow>
          (case decode errs (drop (n - 1) rest) of
             Inl e \<Rightarrow> Inl e
           | Inr s \<Rightarrow> Inr (cp # s)))"
  by pat_completeness auto
termination
  by (relation "measure (\<lambda>(errs, bs). length bs)") auto


section \<open>Syntax nodes, captures and chunks\<close>

text \<open>
  A syntax node as the script reads it: \<^verbatim>\<open>start_byte\<close>, \<^verbatim>\<open>end_byte\<close> and the
  points \<^verbatim>\<open>(row, column)\<close>, all 0-indexed.
\<close>

record node =
  start_byte :: nat
  end_byte :: nat
  start_point :: "nat \<times> nat"
  end_point :: "nat \<times> nat"

text \<open>
  An element of \<^verbatim>\<open>query.matches(root_node)\<close> is a pair of a pattern index and the
  captures of the match. The comment at line 223 records what the binding returns for
  the captures: one dictionary from capture label to a node or a list of nodes. The
  loop at line 259 is written for another shape, a list of such dictionaries (its
  comments at lines 259 and 266). Both are values of the model, and the statements of
  the loop run on either as the interpreter runs them. A dictionary is kept as an
  association list in insertion order, so that iteration and \<^verbatim>\<open>.values()\<close> have the
  order the script sees; lookup takes the first entry of a key. A dictionary has each
  key once; what is proved for all association lists holds for those in particular.
\<close>

datatype capval = Node node | NodeList "node list"

type_synonym capdict = "(string \<times> capval) list"

datatype captures = CaptureDict capdict | CaptureDicts "capdict list"

type_synonym ts_match = "nat \<times> captures"

record chunk =
  file_path :: string
  entity_type :: string
  entity_name :: pystr
  start_line :: nat
  end_line :: nat
  code_content :: pystr

text \<open>
  \<^verbatim>\<open>not match_captures_list\<close> holds of the empty dictionary and of the empty list.
  \<^verbatim>\<open>for cap_dict in match_captures_list\<close> visits the elements of a list, and the keys
  of a dictionary, which are strings.
\<close>

fun is_empty :: "captures \<Rightarrow> bool" where
  "is_empty (CaptureDict d) = (d = [])"
| "is_empty (CaptureDicts ds) = (ds = [])"

datatype item = DictItem capdict | StrItem string

fun iterate :: "captures \<Rightarrow> item list" where
  "iterate (CaptureDict d) = map (\<lambda>kv. StrItem (fst kv)) d"
| "iterate (CaptureDicts ds) = map DictItem ds"

text \<open>
  \<^verbatim>\<open>cap_dict.values()\<close>: a string has no such attribute. The comprehension
  of line 274 collects the values item by item and stops at the first exception.
\<close>

fun values_of :: "item \<Rightarrow> exn + capval list" where
  "values_of (DictItem d) = Inr (map snd d)"
| "values_of (StrItem s) = Inl AttributeError"

fun collect_values :: "item list \<Rightarrow> exn + capval list" where
  "collect_values [] = Inr []"
| "collect_values (cap_dict # rest) =
     (case values_of cap_dict of
        Inl e \<Rightarrow> Inl e
      | Inr vs \<Rightarrow>
          (case collect_values rest of
             Inl e \<Rightarrow> Inl e
           | Inr ws \<Rightarrow> Inr (vs @ ws)))"

text \<open>Attribute access \<^verbatim>\<open>n.attr\<close>: a list has none of the node attributes.\<close>

fun node_attr :: "(node \<Rightarrow> 'a) \<Rightarrow> capval \<Rightarrow> exn + 'a" where
  "node_attr f (Node n) = Inr (f n)"
| "node_attr f (NodeList ns) = Inl AttributeError"

text \<open>
  \<^verbatim>\<open>min(xs, key=k)\<close> and \<^verbatim>\<open>max(xs, key=k)\<close>: the key is computed for every element in
  order, the first element with the least (greatest) key wins, and an empty argument
  raises \<^verbatim>\<open>ValueError\<close>.
\<close>

fun min_scan :: "('a \<Rightarrow> exn + nat) \<Rightarrow> 'a \<Rightarrow> nat \<Rightarrow> 'a list \<Rightarrow> exn + 'a" where
  "min_scan key best kb [] = Inr best"
| "min_scan key best kb (x # xs) =
     (case key x of
        Inl e \<Rightarrow> Inl e
      | Inr k \<Rightarrow> if k < kb then min_scan key x k xs else min_scan key best kb xs)"

fun py_min :: "('a \<Rightarrow> exn + nat) \<Rightarrow> 'a list \<Rightarrow> exn + 'a" where
  "py_min key [] = Inl ValueError"
| "py_min key (x # xs) =
     (case key x of Inl e \<Rightarrow> Inl e | Inr k \<Rightarrow> min_scan key x k xs)"

fun max_scan :: "('a \<Rightarrow> exn + nat) \<Rightarrow> 'a \<Rightarrow> nat \<Rightarrow> 'a list \<Rightarrow> exn + 'a" where
  "max_scan key best kb [] = Inr best"
| "max_scan key best kb (x # xs) =
     (case key x of
        Inl e \<Rightarrow> Inl e
      | Inr k \<Rightarrow> if kb < k then max_scan key x k xs else max_scan key best kb xs)"

fun py_max :: "('a \<Rightarrow> exn + nat) \<Rightarrow> 'a list \<Rightarrow> exn + 'a" where
  "py_max key [] = Inl ValueError"
| "py_max key (x # xs) =
     (case key x of Inl e \<Rightarrow> Inl e | Inr k \<Rightarrow> max_scan key x k xs)"

text \<open>\<^verbatim>\<open>get_node_text\<close> (line 152).\<close>

definition get_node_text :: "capval \<Rightarrow> byte list \<Rightarrow> exn + pystr" where
  "get_node_text n content_bytes =
     (case node_attr start_byte n of
        Inl e \<Rightarrow> Inl e
      | Inr a \<Rightarrow>
          (case node_attr end_byte n of
             Inl e \<Rightarrow> Inl e
           | Inr b \<Rightarrow> decode Ignore (py_slice content_bytes a b)))"

definition Unnamed :: pystr where
  "Unnamed = map of_char ''Unnamed''"

text \<open>
  \<^verbatim>\<open>key in s\<close> for two strings is the substring test, and subscripting a string with
  a string raises \<^verbatim>\<open>TypeError\<close>.
\<close>

fun contains :: "string \<Rightarrow> string \<Rightarrow> bool" where
  "contains key [] = (key = [])"
| "contains key (c # s) = (take (length key) (c # s) = key \<or> contains key s)"

text \<open>The name loop of lines 289 to 293: the first item holding the key decides.\<close>

fun entity_name_of :: "string \<Rightarrow> byte list \<Rightarrow> item list \<Rightarrow> exn + pystr" where
  "entity_name_of name_capture_key content_bytes [] = Inr Unnamed"
| "entity_name_of name_capture_key content_bytes (DictItem cap_dict # rest) =
     (case map_of cap_dict name_capture_key of
        Some v \<Rightarrow> get_node_text v content_bytes
      | None \<Rightarrow> entity_name_of name_capture_key content_bytes rest)"
| "entity_name_of name_capture_key content_bytes (StrItem s # rest) =
     (if contains name_capture_key s then Inl TypeError
      else entity_name_of name_capture_key content_bytes rest)"

text \<open>
  The body of the loop at line 259 for one match: \<open>Inr None\<close> is a \<^verbatim>\<open>continue\<close>,
  \<open>Inr (Some c)\<close> the chunk that is appended, \<open>Inl e\<close> an exception leaving the loop.
\<close>

definition match_chunk ::
  "string \<Rightarrow> string \<Rightarrow> string \<Rightarrow> byte list \<Rightarrow> captures \<Rightarrow> exn + chunk option" where
  "match_chunk fpath etype name_capture_key content_bytes match_captures_list =
     (if is_empty match_captures_list then Inr None
      else
        case collect_values (iterate match_captures_list) of
          Inl e \<Rightarrow> Inl e
        | Inr current_match_nodes \<Rightarrow>
        if current_match_nodes = [] then Inr None
        else
          case py_min (node_attr start_byte) current_match_nodes of Inl e \<Rightarrow> Inl e | Inr min_node \<Rightarrow>
          case py_max (node_attr end_byte) current_match_nodes of Inl e \<Rightarrow> Inl e | Inr max_node \<Rightarrow>
          case node_attr start_byte min_node of Inl e \<Rightarrow> Inl e | Inr sb \<Rightarrow>
          case node_attr end_byte max_node of Inl e \<Rightarrow> Inl e | Inr eb \<Rightarrow>
          case decode Ignore (py_slice content_bytes sb eb) of Inl e \<Rightarrow> Inl e | Inr code \<Rightarrow>
          case node_attr start_point min_node of Inl e \<Rightarrow> Inl e | Inr sp \<Rightarrow>
          case node_attr end_point max_node of Inl e \<Rightarrow> Inl e | Inr ep \<Rightarrow>
          case entity_name_of name_capture_key content_bytes (iterate match_captures_list) of
            Inl e \<Rightarrow> Inl e
          | Inr name \<Rightarrow>
              Inr (Some \<lparr>file_path = fpath, entity_type = etype, entity_name = name,
                         start_line = fst sp + 1, end_line = fst ep + 1,
                         code_content = code\<rparr>))"

text \<open>
  The loop at line 259. The list \<^verbatim>\<open>chunks\<close> is appended to in place, so what was
  appended before an exception stays; the second component is the exception, if any.
\<close>

fun matches_loop ::
  "string \<Rightarrow> string \<Rightarrow> string \<Rightarrow> byte list \<Rightarrow> ts_match list \<Rightarrow> chunk list
     \<Rightarrow> chunk list \<times> exn option" where
  "matches_loop fpath etype key content_bytes [] chunks = (chunks, None)"
| "matches_loop fpath etype key content_bytes (m # ms) chunks =
     (case match_chunk fpath etype key content_bytes (snd m) of
        Inl e \<Rightarrow> (chunks, Some e)
      | Inr None \<Rightarrow> matches_loop fpath etype key content_bytes ms chunks
      | Inr (Some c) \<Rightarrow> matches_loop fpath etype key content_bytes ms (chunks @ [c]))"

section \<open>Grammars, queries and the catalog\<close>

text \<open>
  A loaded grammar (\<^verbatim>\<open>Language\<close> object) is what the script hands to
  \<^verbatim>\<open>parser.set_language\<close>, which rejects a grammar of an incompatible version; with
  the parser set up, \<^verbatim>\<open>parser.parse(content_bytes)\<close> gives a tree, of which the script
  keeps the root node; \<^verbatim>\<open>ts_lang_obj.query(query_str)\<close> compiles a pattern. A compiled
  query answers \<^verbatim>\<open>matches(root_node)\<close> and \<^verbatim>\<open>captures(root_node)\<close>, the latter with a
  list of pairs of a node and a label. Each of these calls except \<^verbatim>\<open>captures\<close> can
  raise. The type \<open>'t\<close> stands for root nodes.
\<close>

record 't ts_query =
  matches :: "'t \<Rightarrow> exn + ts_match list"
  captures :: "'t \<Rightarrow> (node \<times> string) list"

record 't ts_language =
  set_language :: "exn option"
  parse :: "byte list \<Rightarrow> exn + 't"
  query :: "string \<Rightarrow> exn + 't ts_query"

text \<open>An entry of \<^verbatim>\<open>AST_QUERIES\<close>: entity kind, pattern, name capture.\<close>

type_synonym entity_definition = "string \<times> string \<times> string"

definition AST_PARSE_EXTS :: "string list" where
  "AST_PARSE_EXTS = [''.java'', ''.py'', ''.js'', ''.ts'', ''.go'', ''.rb'', ''.cs'']"

definition LANGUAGE_GRAMMARS_CONFIG :: "(string \<times> string) list" where
  "LANGUAGE_GRAMMARS_CONFIG =
     [(''.java'', ''java''), (''.py'', ''python''), (''.js'', ''javascript''),
      (''.ts'', ''typescript'')]"

definition AST_QUERIES :: "(string \<times> entity_definition list) list" where
  "AST_QUERIES =
    [(''java'',
       [(''CLASS'', ''(class_declaration name: (identifier) @name)'', ''name''),
        (''INTERFACE'', ''(interface_declaration name: (identifier) @name)'', ''name''),
        (''METHOD'', ''(method_declaration name: (identifier) @name)'', ''name''),
        (''CONSTRUCTOR'', ''(constructor_declaration name: (identifier) @name)'', ''name''),
        (''ENUM'', ''(enum_declaration name: (identifier) @name)'', ''name'')]),
     (''python'',
       [(''CLASS'', ''(class_definition name: (identifier) @name)'', ''name''),
        (''FUNCTION'', ''(function_definition name: (identifier) @name)'', ''name'')]),
     (''javascript'',
       [(''CLASS'', ''(class_declaration name: (identifier) @name)'', ''name''),
        (''FUNCTION'', ''(function_declaration name: (identifier) @name)'', ''name''),
        (''METHOD'', ''(method_definition name: (property_identifier) @name)'', ''name''),
        (''ARROW_FUNCTION_VARIABLE'',
         ''(lexical_declaration (variable_declarator name: (identifier) @name value: (arrow_function)))'',
         ''name'')]),
     (''typescript'',
       [(''CLASS'', ''(class_declaration name: (type_identifier) @name)'', ''name''),
        (''INTERFACE'', ''(interface_declaration name: (type_identifier) @name)'', ''name''),
        (''FUNCTION'', ''(function_declaration name: (identifier) @name)'', ''name''),
        (''METHOD'', ''(method_definition name: (property_identifier) @name)'', ''name'')])]"

text \<open>
  What the script prints to \<^verbatim>\<open>sys.stderr\<close>, one constructor per \<^verbatim>\<open>print\<close> call,
  with the values interpolated into the message as arguments.
\<close>

datatype event =
    GrammarFileNotFound
  | PleaseCompileGrammars
  | GrammarLoaded string string
  | GrammarLoadError string string exn
  | ParsingWillBeSkipped string
  | NoGrammarObject string string
  | QueryProcessingError string string string exn
  | QueryWas string
  | IncompleteWarning
  | AstParsing string
  | FileReadError string exn
  | CriticalError string exn
  | SkippingAst string

text \<open>
  The module state the functions share: the dictionary \<^verbatim>\<open>LANGUAGES\<close>, keyed by
  extension, and the diagnostic stream.
\<close>

record 't world =
  LANGUAGES :: "(string \<times> 't ts_language) list"
  stderr :: "event list"

section \<open>\<^verbatim>\<open>parse_file_with_tree_sitter\<close>\<close>

text \<open>A \<^verbatim>\<open>for\<close> loop whose body is \<^verbatim>\<open>pass\<close>: it visits every element and stops.\<close>

fun pass_loop :: "'a list \<Rightarrow> exn option" where
  "pass_loop [] = None"
| "pass_loop (x # xs) = pass_loop xs"

text \<open>
  The loop at line 210 over the matches: per match, a loop over the match's captures
  (line 218) and a loop over \<^verbatim>\<open>query.captures(root_node)\<close> (line 237), both with the
  body \<^verbatim>\<open>pass\<close>. Its locals are never read afterwards.
\<close>

fun first_matches_loop :: "'t ts_query \<Rightarrow> 't \<Rightarrow> ts_match list \<Rightarrow> exn option" where
  "first_matches_loop q root_node [] = None"
| "first_matches_loop q root_node (m # ms) =
     (case pass_loop (iterate (snd m)) of
        Some e \<Rightarrow> Some e
      | None \<Rightarrow>
          (case pass_loop (captures q root_node) of
             Some e \<Rightarrow> Some e
           | None \<Rightarrow> first_matches_loop q root_node ms))"

text \<open>The two lines printed by the handler at line 304.\<close>

definition query_failed :: "string \<Rightarrow> string \<Rightarrow> string \<Rightarrow> string \<Rightarrow> exn \<Rightarrow> event list" where
  "query_failed etype fpath lang_name query_str e =
     [QueryProcessingError etype fpath lang_name e, QueryWas query_str]"

text \<open>
  One iteration of the loop at line 203, the \<^verbatim>\<open>try\<close> statement: compile the pattern,
  run both loops, each over a fresh call of \<^verbatim>\<open>query.matches(root_node)\<close>, and on any
  exception print and go on. The state is the list \<^verbatim>\<open>chunks\<close> and the diagnostic
  stream.
\<close>

definition query_body ::
  "'t ts_language \<Rightarrow> 't \<Rightarrow> string \<Rightarrow> string \<Rightarrow> byte list \<Rightarrow> entity_definition
     \<Rightarrow> chunk list \<times> event list \<Rightarrow> chunk list \<times> event list" where
  "query_body ts_lang_obj root_node fpath lang_name content_bytes d st =
     (case d of (etype, query_str, key) \<Rightarrow>
      case st of (chunks, log) \<Rightarrow>
      case query ts_lang_obj query_str of
        Inl e \<Rightarrow> (chunks, log @ query_failed etype fpath lang_name query_str e)
      | Inr q \<Rightarrow>
          (case matches q root_node of
             Inl e \<Rightarrow> (chunks, log @ query_failed etype fpath lang_name query_str e)
           | Inr ms1 \<Rightarrow>
          (case first_matches_loop q root_node ms1 of
             Some e \<Rightarrow> (chunks, log @ query_failed etype fpath lang_name query_str e)
           | None \<Rightarrow>
          (case matches q root_node of
             Inl e \<Rightarrow> (chunks, log @ query_failed etype fpath lang_name query_str e)
           | Inr ms2 \<Rightarrow>
               (case matches_loop fpath etype key content_bytes ms2 chunks of
                  (chunks', None) \<Rightarrow> (chunks', log)
                | (chunks', Some e) \<Rightarrow>
                    (chunks', log @ query_failed etype fpath lang_name query_str e))))))"

fun queries_loop ::
  "'t ts_language \<Rightarrow> 't \<Rightarrow> string \<Rightarrow> string \<Rightarrow> byte list \<Rightarrow> entity_definition list
     \<Rightarrow> chunk list \<times> event list \<Rightarrow> chunk list \<times> event list" where
  "queries_loop ts_lang_obj root_node fpath lang_name content_bytes [] st = st"
| "queries_loop ts_lang_obj root_node fpath lang_name content_bytes (d # ds) st =
     queries_loop ts_lang_obj root_node fpath lang_name content_bytes ds
       (query_body ts_lang_obj root_node fpath lang_name content_bytes d st)"

text \<open>
  The function itself (line 188). Setting up the parser, parsing (lines 196 to 198) and
  the lookup \<^verbatim>\<open>LANGUAGE_GRAMMARS_CONFIG[lang_ext]\<close> (line 201, \<^verbatim>\<open>KeyError\<close> for an
  unknown extension) are outside every \<^verbatim>\<open>try\<close>: an exception there leaves the
  function.
\<close>

definition parse_file_with_tree_sitter ::
  "'t world \<Rightarrow> string \<Rightarrow> string \<Rightarrow> byte list \<Rightarrow> (exn + chunk list) \<times> 't world" where
  "parse_file_with_tree_sitter w fpath lang_ext content_bytes =
     (case map_of (LANGUAGES w) lang_ext of
        None \<Rightarrow> (Inr [], w\<lparr>stderr := stderr w @ [NoGrammarObject lang_ext fpath]\<rparr>)
      | Some ts_lang_obj \<Rightarrow>
          (case set_language ts_lang_obj of
             Some e \<Rightarrow> (Inl e, w)
           | None \<Rightarrow>
          (case parse ts_lang_obj content_bytes of
             Inl e \<Rightarrow> (Inl e, w)
           | Inr root_node \<Rightarrow>
          (case map_of LANGUAGE_GRAMMARS_CONFIG lang_ext of
             None \<Rightarrow> (Inl KeyError, w)
           | Some lang_name \<Rightarrow>
               (let queries_for_lang =
                      (case map_of AST_QUERIES lang_name of None \<Rightarrow> [] | Some qs \<Rightarrow> qs);
                    st = queries_loop ts_lang_obj root_node fpath lang_name content_bytes
                           queries_for_lang ([], stderr w)
                in (Inr (fst st), w\<lparr>stderr := snd st\<rparr>))))))"

subsection \<open>The function with the loop at line 210 removed\<close>

definition query_body_second_loop_only ::
  "'t ts_language \<Rightarrow> 't \<Rightarrow> string \<Rightarrow> string \<Rightarrow> byte list \<Rightarrow> entity_definition
     \<Rightarrow> chunk list \<times> event list \<Rightarrow> chunk list \<times> event list" where
  "query_body_second_loop_only ts_lang_obj root_node fpath lang_name content_bytes d st =
     (case d of (etype, query_str, key) \<Rightarrow>
      case st of (chunks, log) \<Rightarrow>
      case query ts_lang_obj query_str of
        Inl e \<Rightarrow> (chunks, log @ query_failed etype fpath lang_name query_str e)
      | Inr q \<Rightarrow>
          (case matches q root_node of
             Inl e \<Rightarrow> (chunks, log @ query_failed etype fpath lang_name query_str e)
           | Inr ms2 \<Rightarrow>
               (case matches_loop fpath etype key content_bytes ms2 chunks of
                  (chunks', None) \<Rightarrow> (chunks', log)
                | (chunks', Some e) \<Rightarrow>
                    (chunks', log @ query_failed etype fpath lang_name query_str e))))"

fun queries_loop_second_loop_only ::
  "'t ts_language \<Rightarrow> 't \<Rightarrow> string \<Rightarrow> string \<Rightarrow> byte list \<Rightarrow> entity_definition list
     \<Rightarrow> chunk list \<times> event list \<Rightarrow> chunk list \<times> event list" where
  "queries_loop_second_loop_only ts_lang_obj root_node fpath lang_name content_bytes [] st = st"
| "queries_loop_second_loop_only ts_lang_obj root_node fpath lang_name content_bytes (d # ds) st =
     queries_loop_second_loop_only ts_lang_obj root_node fpath lang_name content_bytes ds
       (query_body_second_loop_only ts_lang_obj root_node fpath lang_name content_bytes d st)"

definition parse_file_second_loop_only ::
  "'t world \<Rightarrow> string \<Rightarrow> string \<Rightarrow> byte list \<Rightarrow> (exn + chunk list) \<times> 't world" where
  "parse_file_second_loop_only w fpath lang_ext content_bytes =
     (case map_of (LANGUAGES w) lang_ext of
        None \<Rightarrow> (Inr [], w\<lparr>stderr := stderr w @ [NoGrammarObject lang_ext fpath]\<rparr>)
      | Some ts_lang_obj \<Rightarrow>
          (case set_language ts_lang_obj of
             Some e \<Rightarrow> (Inl e, w)
           | None \<Rightarrow>
          (case parse ts_lang_obj content_bytes of
             Inl e \<Rightarrow> (Inl e, w)
           | Inr root_node \<Rightarrow>
          (case map_of LANGUAGE_GRAMMARS_CONFIG lang_ext of
             None \<Rightarrow> (Inl KeyError, w)
           | Some lang_name \<Rightarrow>
               (let queries_for_lang =
                      (case map_of AST_QUERIES lang_name of None \<Rightarrow> [] | Some qs \<Rightarrow> qs);
                    st = queries_loop_second_loop_only ts_lang_obj root_node fpath lang_name
                           content_bytes queries_for_lang ([], stderr w)
                in (Inr (fst st), w\<lparr>stderr := snd st\<rparr>))))))"

section \<open>Loading the grammars and scanning\<close>

text \<open>
  What a scan finds outside the script: whether the compiled grammar library exists,
  and what the constructor \<^verbatim>\<open>Language(path, lang_name)\<close> does for each language name.
\<close>

record 't environment =
  grammar_file_exists :: bool
  Language :: "string \<Rightarrow> exn + 't ts_language"

text \<open>The loop at line 118 over the items of \<^verbatim>\<open>LANGUAGE_GRAMMARS_CONFIG\<close>.\<close>

fun load_loop :: "'t environment \<Rightarrow> (string \<times> string) list \<Rightarrow> 't world \<Rightarrow> 't world" where
  "load_loop env [] w = w"
| "load_loop env (item # items) w =
     (case item of (ext, lang_name) \<Rightarrow>
      if ext \<notin> set AST_PARSE_EXTS then load_loop env items w
      else
        case Language env lang_name of
          Inr ts_lang_obj \<Rightarrow>
            load_loop env items
              (w\<lparr>LANGUAGES := AList.update ext ts_lang_obj (LANGUAGES w),
                 stderr := stderr w @ [GrammarLoaded lang_name ext]\<rparr>)
        | Inl e \<Rightarrow>
            load_loop env items
              (w\<lparr>stderr := stderr w @ [GrammarLoadError lang_name ext e,
                                         ParsingWillBeSkipped ext]\<rparr>))"

text \<open>\<^verbatim>\<open>_load_tree_sitter_languages\<close> (line 109); the result is \<^verbatim>\<open>bool(LANGUAGES)\<close>.\<close>

definition load_tree_sitter_languages :: "'t environment \<Rightarrow> 't world \<Rightarrow> bool \<times> 't world" where
  "load_tree_sitter_languages env w =
     (if \<not> grammar_file_exists env
      then (False, w\<lparr>stderr := stderr w @ [GrammarFileNotFound, PleaseCompileGrammars]\<rparr>)
      else
        let w' = load_loop env LANGUAGE_GRAMMARS_CONFIG w
        in (LANGUAGES w' \<noteq> [], w'))"

text \<open>
  The directory walk of \<^verbatim>\<open>scan\<close> is represented by the files it visits, in order:
  for each the path as joined to the directory walked (\<^verbatim>\<open>fpath_abs\<close>), the path
  relative to the root, the lower-cased suffix, the verdict of \<^verbatim>\<open>is_test_file\<close>, and
  what \<^verbatim>\<open>open(...).read()\<close> gives.
\<close>

record source_file =
  abs_path :: string
  rel_path :: string
  suffix :: string
  is_test :: bool
  read_result :: "exn + byte list"

text \<open>The body of the loop at line 327 for one file.\<close>

definition scan_file :: "source_file \<Rightarrow> 't world \<times> chunk list \<Rightarrow> 't world \<times> chunk list" where
  "scan_file f st =
     (case st of (w, all_chunks) \<Rightarrow>
      if is_test f then (w, all_chunks)
      else
        let file_ext = suffix f in
        if file_ext \<in> set AST_PARSE_EXTS \<and> map_of (LANGUAGES w) file_ext \<noteq> None then
          (let w1 = w\<lparr>stderr := stderr w @ [AstParsing (rel_path f)]\<rparr> in
           case read_result f of
             Inl exc \<Rightarrow> (w1\<lparr>stderr := stderr w1 @ [FileReadError (abs_path f) exc]\<rparr>, all_chunks)
           | Inr content_bytes \<Rightarrow>
               if content_bytes = [] then (w1, all_chunks)
               else
                 (case parse_file_with_tree_sitter w1 (rel_path f) file_ext content_bytes of
                    (Inr file_chunks, w2) \<Rightarrow> (w2, all_chunks @ file_chunks)
                  | (Inl e, w2) \<Rightarrow>
                      (w2\<lparr>stderr := stderr w2 @ [CriticalError (rel_path f) e]\<rparr>, all_chunks)))
        else if file_ext \<in> set AST_PARSE_EXTS \<and> map_of (LANGUAGES w) file_ext = None then
          (w\<lparr>stderr := stderr w @ [SkippingAst (rel_path f)]\<rparr>, all_chunks)
        else (w, all_chunks))"

fun scan_loop :: "source_file list \<Rightarrow> 't world \<times> chunk list \<Rightarrow> 't world \<times> chunk list" where
  "scan_loop [] st = st"
| "scan_loop (f # fs) st = scan_loop fs (scan_file f st)"

text \<open>
  \<^verbatim>\<open>scan\<close> (line 313) up to the point where the output is assembled: the module
  starts with \<^verbatim>\<open>LANGUAGES = {}\<close>, the grammars are loaded, and the files are visited.
  The result is the final state and \<^verbatim>\<open>all_chunks\<close>.
\<close>

definition scan :: "'t environment \<Rightarrow> source_file list \<Rightarrow> 't world \<times> chunk list" where
  "scan env files =
     (let w0 = \<lparr>LANGUAGES = [], stderr = []\<rparr>;
          loaded = load_tree_sitter_languages env w0;
          w1 = snd loaded;
          w2 = (if \<not> fst loaded \<and>
                   list_ex (\<lambda>ext. ext \<in> set AST_PARSE_EXTS) (map fst LANGUAGE_GRAMMARS_CONFIG)
                then w1\<lparr>stderr := stderr w1 @ [IncompleteWarning]\<rparr> else w1)
      in scan_loop files (w2, []))"

section \<open>Notions used in the statements\<close>

text \<open>
  The values a match binds, in the order of its labels, and the catalog entries the
  function runs for an extension.
\<close>

fun match_values :: "captures \<Rightarrow> capval list" where
  "match_values (CaptureDict d) = map snd d"
| "match_values (CaptureDicts ds) = concat (map (map snd) ds)"




text \<open>
  The loader's messages that report that the grammar of an extension could not be
  loaded (lines 114 and 126, each followed by a second line of the same report), and the
  diagnostics that tell that the grammar of an extension is not loaded: the loader's
  messages, the warning of line 320, and the notice of line 347 for a file whose path
  ends in the extension.
\<close>

fun reports_load_failure :: "string \<Rightarrow> event \<Rightarrow> bool" where
  "reports_load_failure ext GrammarFileNotFound = True"
| "reports_load_failure ext (GrammarLoadError lang_name x e) = (x = ext)"
| "reports_load_failure ext ev = False"

definition ends_with :: "string \<Rightarrow> string \<Rightarrow> bool" where
  "ends_with ext p = (drop (length p - length ext) p = ext)"

fun reports_not_loaded :: "string \<Rightarrow> event \<Rightarrow> bool" where
  "reports_not_loaded ext GrammarFileNotFound = True"
| "reports_not_loaded ext (GrammarLoadError lang_name x e) = (x = ext)"
| "reports_not_loaded ext IncompleteWarning = True"
| "reports_not_loaded ext (SkippingAst p) = ends_with ext p"
| "reports_not_loaded ext ev = False"

section \<open>Example files and grammars\<close>

text \<open>
  The file \<^verbatim>\<open>def f():\n  '\xe9'\n\<close>, saved in Latin-1, with the node of the name
  \<^verbatim>\<open>f\<close> and the node of the body. A match in the shape the loop is written for binds
  both; the grammar object used with such matches compiles the catalog's function
  pattern and rejects every other pattern.
\<close>

definition example_bytes :: "byte list" where
  "example_bytes = [0x64, 0x65, 0x66, 0x20, 0x66, 0x28, 0x29, 0x3A, 0x0A,
                    0x20, 0x20, 0x27, 0xE9, 0x27, 0x0A]"

definition name_node :: node where
  "name_node = \<lparr>start_byte = 4, end_byte = 5, start_point = (0, 4), end_point = (0, 5)\<rparr>"

definition body_node :: node where
  "body_node = \<lparr>start_byte = 11, end_byte = 14, start_point = (1, 2), end_point = (1, 5)\<rparr>"

definition example_match :: ts_match where
  "example_match = (0, CaptureDicts [[(''name'', Node name_node)], [(''body'', Node body_node)]])"

definition empty_match :: ts_match where
  "empty_match = (0, CaptureDicts [[]])"

definition list_match :: ts_match where
  "list_match = (0, CaptureDicts [[(''name'', NodeList [name_node, body_node])]])"

definition example_query :: "ts_match list \<Rightarrow> unit ts_query" where
  "example_query ms =
     \<lparr>matches = (\<lambda>root_node. Inr ms),
      captures = (\<lambda>root_node. [(name_node, ''name''), (body_node, ''body'')])\<rparr>"

definition example_language :: "ts_match list \<Rightarrow> unit ts_language" where
  "example_language ms =
     \<lparr>set_language = None,
      parse = (\<lambda>content_bytes. Inr ()),
      query = (\<lambda>query_str.
                 if query_str = ''(function_definition name: (identifier) @name)''
                 then Inr (example_query ms)
                 else Inl (LibraryError ''Invalid syntax''))\<rparr>"

definition example_world :: "ts_match list \<Rightarrow> unit world" where
  "example_world ms = \<lparr>LANGUAGES = [(''.py'', example_language ms)], stderr = []\<rparr>"

definition example_chunk :: chunk where
  "example_chunk =
     \<lparr>file_path = ''a.py'', entity_type = ''FUNCTION'', entity_name = [102],
      start_line = 1, end_line = 2,
      code_content = [102, 40, 41, 58, 10, 32, 32, 39, 39]\<rparr>"

text \<open>
  What the binding answers: each match is a pair of the pattern index and one dictionary
  that binds \<^verbatim>\<open>name\<close>, the only capture of the catalog's patterns. The Python file
  \<^verbatim>\<open>def compute():\n    return 1\n\<close> has one function, whose name is the node at
  bytes 4 to 11; both Python patterns compile, the class pattern finds the given class
  matches and the function pattern the given function matches.
\<close>

definition compute_bytes :: "byte list" where
  "compute_bytes = [0x64, 0x65, 0x66, 0x20, 0x63, 0x6F, 0x6D, 0x70, 0x75, 0x74, 0x65,
                    0x28, 0x29, 0x3A, 0x0A, 0x20, 0x20, 0x20, 0x20, 0x72, 0x65, 0x74,
                    0x75, 0x72, 0x6E, 0x20, 0x31, 0x0A]"

definition compute_node :: node where
  "compute_node = \<lparr>start_byte = 4, end_byte = 11, start_point = (0, 4), end_point = (0, 11)\<rparr>"

definition compute_match :: ts_match where
  "compute_match = (0, CaptureDict [(''name'', Node compute_node)])"

definition binding_empty_match :: ts_match where
  "binding_empty_match = (0, CaptureDict [])"

definition binding_query :: "ts_match list \<Rightarrow> unit ts_query" where
  "binding_query ms =
     \<lparr>matches = (\<lambda>root_node. Inr ms),
      captures = (\<lambda>root_node.
                    [(n, fst kv).
                       m \<leftarrow> ms,
                       kv \<leftarrow> (case snd m of CaptureDict d \<Rightarrow> d | CaptureDicts ds \<Rightarrow> concat ds),
                       n \<leftarrow> (case snd kv of Node n \<Rightarrow> [n] | NodeList ns \<Rightarrow> ns)])\<rparr>"

definition binding_language :: "ts_match list \<Rightarrow> ts_match list \<Rightarrow> unit ts_language" where
  "binding_language class_matches function_matches =
     \<lparr>set_language = None,
      parse = (\<lambda>content_bytes. Inr ()),
      query = (\<lambda>query_str.
                 if query_str = ''(class_definition name: (identifier) @name)''
                 then Inr (binding_query class_matches)
                 else if query_str = ''(function_definition name: (identifier) @name)''
                 then Inr (binding_query function_matches)
                 else Inl (LibraryError ''Invalid syntax''))\<rparr>"


text \<open>
  The Java file \<^verbatim>\<open>class Foo { void bar() {} }\<close>: the class pattern has one match,
  binding the name at bytes 6 to 9, the method pattern one, binding the name at bytes
  17 to 20, and the other three patterns of the catalog compile and find nothing.
\<close>

definition foo_bytes :: "byte list" where
  "foo_bytes = [0x63, 0x6C, 0x61, 0x73, 0x73, 0x20, 0x46, 0x6F, 0x6F, 0x20, 0x7B, 0x20,
                0x76, 0x6F, 0x69, 0x64, 0x20, 0x62, 0x61, 0x72, 0x28, 0x29, 0x20, 0x7B,
                0x7D, 0x20, 0x7D]"

definition foo_node :: node where
  "foo_node = \<lparr>start_byte = 6, end_byte = 9, start_point = (0, 6), end_point = (0, 9)\<rparr>"

definition bar_node :: node where
  "bar_node = \<lparr>start_byte = 17, end_byte = 20, start_point = (0, 17), end_point = (0, 20)\<rparr>"

definition java_language :: "unit ts_language" where
  "java_language =
     \<lparr>set_language = None,
      parse = (\<lambda>content_bytes. Inr ()),
      query = (\<lambda>query_str.
                 if query_str = ''(class_declaration name: (identifier) @name)''
                 then Inr (binding_query [(0, CaptureDict [(''name'', Node foo_node)])])
                 else if query_str = ''(method_declaration name: (identifier) @name)''
                 then Inr (binding_query [(0, CaptureDict [(''name'', Node bar_node)])])
                 else if query_str \<in> {''(interface_declaration name: (identifier) @name)'',
                                       ''(constructor_declaration name: (identifier) @name)'',
                                       ''(enum_declaration name: (identifier) @name)''}
                 then Inr (binding_query [])
                 else Inl (LibraryError ''Invalid syntax''))\<rparr>"


text \<open>
  Two scans over the Python file and two copies of the Java file. In the first the
  compiled library exists, the Python grammar loads and the constructor raises for every
  other language. In the second the constructor also returns an object for Java, built
  for another version of the library, which \<^verbatim>\<open>set_language\<close> rejects.
\<close>

definition example_files :: "source_file list" where
  "example_files =
     [\<lparr>abs_path = ''repo/A.java'', rel_path = ''A.java'', suffix = ''.java'', is_test = False,
       read_result = Inr foo_bytes\<rparr>,
      \<lparr>abs_path = ''repo/compute.py'', rel_path = ''compute.py'', suffix = ''.py'',
       is_test = False, read_result = Inr compute_bytes\<rparr>,
      \<lparr>abs_path = ''repo/B.java'', rel_path = ''B.java'', suffix = ''.java'', is_test = False,
       read_result = Inr foo_bytes\<rparr>]"

definition example_environment :: "unit environment" where
  "example_environment =
     \<lparr>grammar_file_exists = True,
      Language = (\<lambda>lang_name.
                    if lang_name = ''python'' then Inr (binding_language [] [compute_match])
                    else Inl (LibraryError ''undefined symbol''))\<rparr>"

definition outdated_java :: "unit ts_language" where
  "outdated_java = java_language\<lparr>set_language := Some ValueError\<rparr>"

definition outdated_environment :: "unit environment" where
  "outdated_environment =
     \<lparr>grammar_file_exists = True,
      Language = (\<lambda>lang_name.
                    if lang_name = ''python'' then Inr (binding_language [] [compute_match])
                    else if lang_name = ''java'' then Inr outdated_java
                    else Inl (LibraryError ''undefined symbol''))\<rparr>"

section \<open>Properties of the loops\<close>

lemma pass_loop_None: "pass_loop xs = None"
  by (induction xs) simp_all

lemma first_matches_loop_None: "first_matches_loop q root_node ms = None"
  by (induction ms) (simp_all add: pass_loop_None)

lemma collect_values_dicts:
  "collect_values (map DictItem ds) = Inr (concat (map (map snd) ds))"
  by (induction ds) simp_all

lemma collect_values_labels:
  "d \<noteq> [] \<Longrightarrow> collect_values (map (\<lambda>kv. StrItem (fst kv)) d) = Inl AttributeError"
  by (cases d) simp_all

lemma match_chunk_dict:
  "match_chunk fpath etype key bs (CaptureDict d) =
     (if d = [] then Inr None else Inl AttributeError)"
  by (simp add: match_chunk_def collect_values_labels)

lemma match_chunk_None:
  "match_values c = [] \<Longrightarrow> match_chunk fpath etype key bs c = Inr None"
  by (cases c) (simp_all add: match_chunk_def collect_values_dicts)

lemma matches_loop_append:
  "matches_loop fpath etype key bs (ms1 @ ms2) chunks =
     (case matches_loop fpath etype key bs ms1 chunks of
        (cs, None) \<Rightarrow> matches_loop fpath etype key bs ms2 cs
      | (cs, Some e) \<Rightarrow> (cs, Some e))"
  by (induction ms1 arbitrary: chunks) (auto split: sum.splits option.splits)

lemma matches_loop_extends:
  "\<exists>new. fst (matches_loop fpath etype key bs ms chunks) = chunks @ new"
proof (induction ms arbitrary: chunks)
  case Nil
  show ?case by simp
next
  case (Cons m ms)
  show ?case
  proof (cases "match_chunk fpath etype key bs (snd m)")
    case (Inl e)
    then show ?thesis by simp
  next
    case (Inr r)
    show ?thesis
    proof (cases r)
      case None
      with Inr Cons[of chunks] show ?thesis by simp
    next
      case (Some c)
      from Cons[of "chunks @ [c]"] obtain new where
        "fst (matches_loop fpath etype key bs ms (chunks @ [c])) = chunks @ [c] @ new" by auto
      with Inr Some show ?thesis by simp
    qed
  qed
qed

lemma queries_loop_append:
  "queries_loop lang root_node fpath lang_name bs (ds1 @ ds2) st =
   queries_loop lang root_node fpath lang_name bs ds2
     (queries_loop lang root_node fpath lang_name bs ds1 st)"
  by (induction ds1 arbitrary: st) simp_all

lemma query_body_chunks:
  "fst (query_body lang root_node fpath lang_name bs d (chunks, log)) =
   fst (query_body lang root_node fpath lang_name bs d (chunks, log'))"
  by (simp add: query_body_def split: prod.splits sum.splits option.splits)

lemma queries_loop_chunks:
  "fst (queries_loop lang root_node fpath lang_name bs ds (chunks, log)) =
   fst (queries_loop lang root_node fpath lang_name bs ds (chunks, log'))"
proof (induction ds arbitrary: chunks log log')
  case Nil
  show ?case by simp
next
  case (Cons d ds)
  obtain c1 l1 where a: "query_body lang root_node fpath lang_name bs d (chunks, log) = (c1, l1)"
    by (cases "query_body lang root_node fpath lang_name bs d (chunks, log)") auto
  obtain c2 l2 where b: "query_body lang root_node fpath lang_name bs d (chunks, log') = (c2, l2)"
    by (cases "query_body lang root_node fpath lang_name bs d (chunks, log')") auto
  from a b query_body_chunks[of lang root_node fpath lang_name bs d chunks log log']
  have "c1 = c2" by simp
  with a b Cons.IH[of c1 l1 l2] show ?case by simp
qed

lemma query_body_compile_failure:
  "query lang query_str = Inl e \<Longrightarrow>
   query_body lang root_node fpath lang_name bs (etype, query_str, key) (chunks, log) =
     (chunks, log @ [QueryProcessingError etype fpath lang_name e, QueryWas query_str])"
  by (simp add: query_body_def query_failed_def)

lemma parse_file_LANGUAGES:
  "LANGUAGES (snd (parse_file_with_tree_sitter w fpath lang_ext bs)) = LANGUAGES w"
  by (simp add: parse_file_with_tree_sitter_def Let_def split: option.splits sum.splits)

lemma parse_file_chunks:
  "LANGUAGES w = LANGUAGES w' \<Longrightarrow>
   fst (parse_file_with_tree_sitter w fpath lang_ext bs) =
   fst (parse_file_with_tree_sitter w' fpath lang_ext bs)"
  by (simp add: parse_file_with_tree_sitter_def Let_def
      queries_loop_chunks[of _ _ _ _ _ _ _ "stderr w" "stderr w'"] split: option.splits sum.splits)

lemma query_body_second_loop_only:
  "query_body lang root_node fpath lang_name bs d st =
   query_body_second_loop_only lang root_node fpath lang_name bs d st"
  by (simp add: query_body_def query_body_second_loop_only_def first_matches_loop_None
      split: prod.splits sum.splits)

lemma queries_loop_second_loop_only:
  "queries_loop lang root_node fpath lang_name bs ds st =
   queries_loop_second_loop_only lang root_node fpath lang_name bs ds st"
  by (induction ds arbitrary: st) (simp_all add: query_body_second_loop_only)

section \<open>The loop over the matches and the loop over the catalog\<close>

lemmas decode_unfold = utf8_advance_def utf8_decode_def utf8_two_def utf8_three_def
  utf8_four_def is_continuation_byte_def py_slice_def

lemma example_match_chunk:
  "match_chunk ''a.py'' ''FUNCTION'' ''name'' example_bytes (snd example_match) = Inr (Some example_chunk)"
  by (simp add: match_chunk_def example_match_def name_node_def body_node_def get_node_text_def
      example_chunk_def example_bytes_def decode_unfold)

lemma list_match_chunk:
  "match_chunk fpath etype key bs (snd list_match) = Inl AttributeError"
  by (simp add: match_chunk_def list_match_def)

lemma empty_match_values: "match_values (snd empty_match) = []"
  by (simp add: empty_match_def)

lemma binding_empty_match_values: "match_values (snd binding_empty_match) = []"
  by (simp add: binding_empty_match_def)

lemma compute_match_chunk:
  "match_chunk fpath etype key bs (snd compute_match) = Inl AttributeError"
  by (simp add: compute_match_def match_chunk_dict)

lemma example_parse:
  "fst (parse_file_with_tree_sitter (example_world [example_match]) ''a.py'' ''.py'' example_bytes)
     = Inr [example_chunk]"
  by (simp add: parse_file_with_tree_sitter_def example_world_def example_language_def
      LANGUAGE_GRAMMARS_CONFIG_def AST_QUERIES_def query_body_def example_query_def
      example_match_chunk query_failed_def first_matches_loop_None Let_def)

text \<open>
  C7. A match whose captures bind no node yields no entity and no exception: the loop
  body ends in a \<^verbatim>\<open>continue\<close>, and the loop over the matches gives the same chunks
  and the same outcome as if the empty match were not among them. This covers the empty
  dictionary the binding returns as well as the empty list.
\<close>
theorem empty_match_discarded:
  assumes "match_values (snd m) = []"
  shows "match_chunk fpath etype key bs (snd m) = Inr None \<and>
         matches_loop fpath etype key bs (ms1 @ m # ms2) chunks =
           matches_loop fpath etype key bs (ms1 @ ms2) chunks"
proof -
  from assms have n: "match_chunk fpath etype key bs (snd m) = Inr None"
    by (rule match_chunk_None)
  then have "matches_loop fpath etype key bs (m # ms2) cs = matches_loop fpath etype key bs ms2 cs" for cs
    by simp
  with n show ?thesis
    by (simp add: matches_loop_append[of _ _ _ _ ms1] split: prod.splits option.splits)
qed

theorem empty_match_discarded_witness:
  "match_values (snd empty_match) = [] \<and>
   match_chunk ''a.py'' ''FUNCTION'' ''name'' example_bytes (snd empty_match) = Inr None \<and>
   matches_loop ''a.py'' ''FUNCTION'' ''name'' example_bytes
     ([example_match] @ empty_match # [example_match]) [] = ([example_chunk, example_chunk], None) \<and>
   match_values (snd binding_empty_match) = [] \<and>
   match_chunk ''compute.py'' ''FUNCTION'' ''name'' compute_bytes (snd binding_empty_match)
     = Inr None \<and>
   matches_loop ''compute.py'' ''FUNCTION'' ''name'' compute_bytes
     ([] @ binding_empty_match # [compute_match]) [] = ([], Some AttributeError)"
  using empty_match_discarded[OF empty_match_values, of "''a.py''" "''FUNCTION''" "''name''"
      example_bytes "[example_match]" "[example_match]" "[]"]
    empty_match_discarded[OF binding_empty_match_values, of "''compute.py''" "''FUNCTION''"
      "''name''" compute_bytes "[]" "[compute_match]" "[]"]
  by (simp add: empty_match_values binding_empty_match_values example_match_chunk compute_match_chunk)

text \<open>
  C9. The loop at line 210 contributes nothing: the function returns the same result,
  and leaves the same state, as the function with that loop removed.
\<close>
theorem first_loop_contributes_nothing:
  "parse_file_with_tree_sitter w fpath lang_ext bs = parse_file_second_loop_only w fpath lang_ext bs"
  by (simp add: parse_file_with_tree_sitter_def parse_file_second_loop_only_def
      queries_loop_second_loop_only Let_def split: option.splits sum.splits)

theorem first_loop_contributes_nothing_witness:
  "fst (parse_file_second_loop_only (example_world [example_match]) ''a.py'' ''.py'' example_bytes)
     = Inr [example_chunk]"
  using first_loop_contributes_nothing[of "example_world [example_match]" "''a.py''" "''.py''" example_bytes]
    example_parse
  by simp

text \<open>
  C4. When the pattern of one catalog entry does not compile, the loop over the catalog
  goes on: after the entries before it, the only effect of the failing entry is the two
  diagnostic lines, which carry the entity kind, the file, the language, the exception
  and the pattern; the entries after it run from there, and the chunks returned are
  those of the catalog without the failing entry. This holds for every file, so the
  entry yields nothing in any file of the scan.
\<close>
theorem uncompilable_pattern_skipped:
  assumes "query ts_lang_obj query_str = Inl e"
  shows "queries_loop ts_lang_obj root_node fpath lang_name bs
           (ds1 @ (etype, query_str, key) # ds2) (chunks, log) =
         queries_loop ts_lang_obj root_node fpath lang_name bs ds2
           (fst (queries_loop ts_lang_obj root_node fpath lang_name bs ds1 (chunks, log)),
            snd (queries_loop ts_lang_obj root_node fpath lang_name bs ds1 (chunks, log)) @
              [QueryProcessingError etype fpath lang_name e, QueryWas query_str]) \<and>
         fst (queries_loop ts_lang_obj root_node fpath lang_name bs
                (ds1 @ (etype, query_str, key) # ds2) (chunks, log)) =
         fst (queries_loop ts_lang_obj root_node fpath lang_name bs (ds1 @ ds2) (chunks, log))"
proof -
  let ?st1 = "queries_loop ts_lang_obj root_node fpath lang_name bs ds1 (chunks, log)"
  let ?ev = "[QueryProcessingError etype fpath lang_name e, QueryWas query_str]"
  have 1: "queries_loop ts_lang_obj root_node fpath lang_name bs
             (ds1 @ (etype, query_str, key) # ds2) (chunks, log) =
           queries_loop ts_lang_obj root_node fpath lang_name bs ds2 (fst ?st1, snd ?st1 @ ?ev)"
    using query_body_compile_failure[OF assms, of root_node fpath lang_name bs etype key "fst ?st1" "snd ?st1"]
    by (simp add: queries_loop_append)
  have 2: "queries_loop ts_lang_obj root_node fpath lang_name bs (ds1 @ ds2) (chunks, log) =
           queries_loop ts_lang_obj root_node fpath lang_name bs ds2 (fst ?st1, snd ?st1)"
    by (simp add: queries_loop_append)
  from 1 2 queries_loop_chunks[of ts_lang_obj root_node fpath lang_name bs ds2 "fst ?st1" "snd ?st1 @ ?ev" "snd ?st1"]
  show ?thesis by simp
qed

lemma example_class_pattern:
  "query (example_language ms) ''(class_definition name: (identifier) @name)''
     = Inl (LibraryError ''Invalid syntax'')"
  by (simp add: example_language_def)

lemma example_function_body:
  "query_body (example_language [example_match]) () ''a.py'' ''python'' example_bytes
     (''FUNCTION'', ''(function_definition name: (identifier) @name)'', ''name'') ([], log)
   = ([example_chunk], log)"
  by (simp add: query_body_def example_language_def example_query_def first_matches_loop_None
      example_match_chunk)

theorem uncompilable_pattern_skipped_witness:
  "query (example_language [example_match]) ''(class_definition name: (identifier) @name)''
     = Inl (LibraryError ''Invalid syntax'') \<and>
   queries_loop (example_language [example_match]) () ''a.py'' ''python'' example_bytes
     ([] @ (''CLASS'', ''(class_definition name: (identifier) @name)'', ''name'') #
        [(''FUNCTION'', ''(function_definition name: (identifier) @name)'', ''name'')]) ([], [])
   = ([example_chunk],
      [QueryProcessingError ''CLASS'' ''a.py'' ''python'' (LibraryError ''Invalid syntax''),
       QueryWas ''(class_definition name: (identifier) @name)''])"
  using uncompilable_pattern_skipped[OF example_class_pattern,
      of "[example_match]" "()" "''a.py''" "''python''" example_bytes "[]" "''CLASS''" "''name''"
         "[(''FUNCTION'', ''(function_definition name: (identifier) @name)'', ''name'')]" "[]" "[]"]
  by (simp add: example_class_pattern example_function_body)

text \<open>
  C8. Running the function again on the same file, from the state the first run left,
  returns the same list of chunks in the same order; the run does not change
  \<^verbatim>\<open>LANGUAGES\<close>, the only state its result depends on.
\<close>
theorem parse_file_deterministic:
  "fst (parse_file_with_tree_sitter (snd (parse_file_with_tree_sitter w fpath lang_ext bs))
          fpath lang_ext bs) =
   fst (parse_file_with_tree_sitter w fpath lang_ext bs) \<and>
   LANGUAGES (snd (parse_file_with_tree_sitter w fpath lang_ext bs)) = LANGUAGES w"
  using parse_file_chunks[OF parse_file_LANGUAGES] parse_file_LANGUAGES by blast

theorem parse_file_deterministic_witness:
  "fst (parse_file_with_tree_sitter
          (snd (parse_file_with_tree_sitter (example_world [example_match]) ''a.py'' ''.py'' example_bytes))
          ''a.py'' ''.py'' example_bytes) = Inr [example_chunk]"
  using parse_file_deterministic[of "example_world [example_match]" "''a.py''" "''.py''" example_bytes]
  by (simp add: example_parse)

text \<open>
  C10. When the loop body raises at a match after the matches before it were processed
  without an exception, the chunks appended for those earlier matches stay in the list
  (which extends the list the entry started with), the matches after the failing one
  contribute nothing, the handler prints its two lines, and the loop over the catalog
  continues with the next entry from that state.
\<close>
theorem no_rollback_on_exception:
  assumes "query ts_lang_obj query_str = Inr q"
    and "matches q root_node = Inr (ms1 @ m # ms2)"
    and "matches_loop fpath etype key bs ms1 chunks = (chunks1, None)"
    and "match_chunk fpath etype key bs (snd m) = Inl e"
  shows "query_body ts_lang_obj root_node fpath lang_name bs (etype, query_str, key) (chunks, log) =
           (chunks1, log @ [QueryProcessingError etype fpath lang_name e, QueryWas query_str]) \<and>
         (\<exists>new. chunks1 = chunks @ new) \<and>
         queries_loop ts_lang_obj root_node fpath lang_name bs ((etype, query_str, key) # ds) (chunks, log) =
           queries_loop ts_lang_obj root_node fpath lang_name bs ds
             (chunks1, log @ [QueryProcessingError etype fpath lang_name e, QueryWas query_str])"
proof -
  from assms(3,4) have "matches_loop fpath etype key bs (ms1 @ m # ms2) chunks = (chunks1, Some e)"
    by (simp add: matches_loop_append)
  with assms(1,2) have qb:
    "query_body ts_lang_obj root_node fpath lang_name bs (etype, query_str, key) (chunks, log) =
       (chunks1, log @ [QueryProcessingError etype fpath lang_name e, QueryWas query_str])"
    by (simp add: query_body_def first_matches_loop_None query_failed_def)
  from matches_loop_extends[of fpath etype key bs ms1 chunks] assms(3)
  have "\<exists>new. chunks1 = chunks @ new" by simp
  with qb show ?thesis by simp
qed

lemma example_function_pattern:
  "query (example_language ms) ''(function_definition name: (identifier) @name)''
     = Inr (example_query ms)"
  by (simp add: example_language_def)

theorem no_rollback_on_exception_witness:
  "query (example_language [example_match, list_match, example_match])
     ''(function_definition name: (identifier) @name)''
     = Inr (example_query [example_match, list_match, example_match]) \<and>
   matches (example_query [example_match, list_match, example_match]) ()
     = Inr ([example_match] @ list_match # [example_match]) \<and>
   matches_loop ''a.py'' ''FUNCTION'' ''name'' example_bytes [example_match] []
     = ([example_chunk], None) \<and>
   match_chunk ''a.py'' ''FUNCTION'' ''name'' example_bytes (snd list_match) = Inl AttributeError \<and>
   query_body (example_language [example_match, list_match, example_match]) () ''a.py'' ''python''
     example_bytes (''FUNCTION'', ''(function_definition name: (identifier) @name)'', ''name'') ([], [])
   = ([example_chunk],
      [QueryProcessingError ''FUNCTION'' ''a.py'' ''python'' AttributeError,
       QueryWas ''(function_definition name: (identifier) @name)''])"
proof -
  have a: "matches (example_query [example_match, list_match, example_match]) ()
             = Inr ([example_match] @ list_match # [example_match])"
    by (simp add: example_query_def)
  have b: "matches_loop ''a.py'' ''FUNCTION'' ''name'' example_bytes [example_match] []
             = ([example_chunk], None)"
    by (simp add: example_match_chunk)
  from no_rollback_on_exception[OF example_function_pattern a b list_match_chunk,
      of "''python''" "[]" "[]"]
  have "query_body (example_language [example_match, list_match, example_match]) () ''a.py'' ''python''
     example_bytes (''FUNCTION'', ''(function_definition name: (identifier) @name)'', ''name'') ([], [])
   = ([example_chunk],
      [QueryProcessingError ''FUNCTION'' ''a.py'' ''python'' AttributeError,
       QueryWas ''(function_definition name: (identifier) @name)''])"
    by simp
  with example_function_pattern a b list_match_chunk show ?thesis by blast
qed

section \<open>Matches as the binding returns them\<close>

text \<open>
  The binding returns the captures of a match as one dictionary (comment at line 223).
  The loop at line 259 iterates that dictionary as if it were a list of dictionaries, so
  \<^verbatim>\<open>cap_dict\<close> at line 274 is a label, a string. The statements below follow the code on
  that shape, from one match up to a whole file.
\<close>

text \<open>
  C2, on what the binding returns. For a match whose capture dictionary binds at least
  one node, the loop body emits no chunk: iterating the dictionary yields its labels,
  \<^verbatim>\<open>cap_dict.values()\<close> at line 274 raises \<^verbatim>\<open>AttributeError\<close> on the first of them, and
  the loop over the matches ends there with the list of chunks as it was. No span, no
  minimum and no maximum is ever computed for such a match.
\<close>
theorem dict_match_raises:
  assumes "d \<noteq> []"
  shows "match_chunk fpath etype key bs (CaptureDict d) = Inl AttributeError \<and>
         matches_loop fpath etype key bs ((i, CaptureDict d) # ms) chunks =
           (chunks, Some AttributeError)"
  using assms by (simp add: match_chunk_dict)

theorem dict_match_raises_witness:
  "[(''name'', Node compute_node)] \<noteq> [] \<and>
   compute_match = (0, CaptureDict [(''name'', Node compute_node)]) \<and>
   match_chunk ''compute.py'' ''FUNCTION'' ''name'' compute_bytes (snd compute_match) = Inl AttributeError \<and>
   matches_loop ''compute.py'' ''FUNCTION'' ''name'' compute_bytes [compute_match] [] =
     ([], Some AttributeError)"
proof -
  have ne: "[(''name'', Node compute_node)] \<noteq> []" by simp
  from dict_match_raises[OF ne, of "''compute.py''" "''FUNCTION''" "''name''" compute_bytes 0 "[]" "[]"]
  show ?thesis by (simp add: compute_match_def)
qed








lemma binding_function_body:
  "query_body (binding_language [] [(0, CaptureDict [(''name'', Node n)])]) () fpath ''python'' bs
     (''FUNCTION'', ''(function_definition name: (identifier) @name)'', ''name'') (chunks, log)
   = (chunks, log @ [QueryProcessingError ''FUNCTION'' fpath ''python'' AttributeError,
                     QueryWas ''(function_definition name: (identifier) @name)''])"
  by (simp add: query_body_def binding_language_def binding_query_def first_matches_loop_None
      match_chunk_dict query_failed_def)

lemma binding_class_body:
  "query_body (binding_language [] ms) () fpath ''python'' bs
     (''CLASS'', ''(class_definition name: (identifier) @name)'', ''name'') (chunks, log)
   = (chunks, log)"
  by (simp add: query_body_def binding_language_def binding_query_def)






section \<open>Scanning with a grammar that is not usable\<close>

lemma query_body_reports:
  "filter (reports_load_failure ext) (snd (query_body lang root_node fpath lang_name bs d (chunks, log)))
   = filter (reports_load_failure ext) log"
  by (simp add: query_body_def query_failed_def split: prod.splits sum.splits option.splits)

lemma queries_loop_reports:
  "filter (reports_load_failure ext) (snd (queries_loop lang root_node fpath lang_name bs ds (chunks, log)))
   = filter (reports_load_failure ext) log"
proof (induction ds arbitrary: chunks log)
  case Nil
  show ?case by simp
next
  case (Cons d ds)
  obtain c1 l1 where a: "query_body lang root_node fpath lang_name bs d (chunks, log) = (c1, l1)"
    by (cases "query_body lang root_node fpath lang_name bs d (chunks, log)") auto
  with query_body_reports[of ext lang root_node fpath lang_name bs d chunks log]
  have "filter (reports_load_failure ext) l1 = filter (reports_load_failure ext) log" by simp
  with a Cons.IH[of c1 l1] show ?case by simp
qed

lemma parse_file_reports:
  "filter (reports_load_failure ext) (stderr (snd (parse_file_with_tree_sitter w fpath lang_ext bs)))
   = filter (reports_load_failure ext) (stderr w)"
  by (simp add: parse_file_with_tree_sitter_def Let_def queries_loop_reports
      split: option.splits sum.splits)

lemma query_body_log:
  "\<exists>new. snd (query_body lang root_node fpath lang_name bs d (chunks, log)) = log @ new"
  by (simp add: query_body_def split: prod.splits sum.splits option.splits)

lemma queries_loop_log:
  "\<exists>new. snd (queries_loop lang root_node fpath lang_name bs ds (chunks, log)) = log @ new"
proof (induction ds arbitrary: chunks log)
  case Nil
  show ?case by simp
next
  case (Cons d ds)
  obtain c1 l1 where a: "query_body lang root_node fpath lang_name bs d (chunks, log) = (c1, l1)"
    by (cases "query_body lang root_node fpath lang_name bs d (chunks, log)") auto
  with query_body_log[of lang root_node fpath lang_name bs d chunks log]
  obtain n1 where n1: "l1 = log @ n1" by auto
  from Cons.IH[of c1 l1] obtain n2 where
    "snd (queries_loop lang root_node fpath lang_name bs ds (c1, l1)) = l1 @ n2" by blast
  with a n1 show ?case by simp
qed

lemma parse_file_log:
  "\<exists>new. stderr (snd (parse_file_with_tree_sitter w fpath lang_ext bs)) = stderr w @ new"
  by (simp add: parse_file_with_tree_sitter_def Let_def queries_loop_log
      split: option.splits sum.splits)

lemma parse_file_rejected:
  "map_of (LANGUAGES w) lang_ext = Some obj \<Longrightarrow> set_language obj = Some e \<Longrightarrow>
   parse_file_with_tree_sitter w fpath lang_ext bs = (Inl e, w)"
  by (simp add: parse_file_with_tree_sitter_def)

lemma scan_file_parsed:
  "scan_file f (w, cs) =
     (if is_test f then (w, cs)
      else if suffix f \<in> set AST_PARSE_EXTS \<and> map_of (LANGUAGES w) (suffix f) \<noteq> None then
        (case read_result f of
           Inl exc \<Rightarrow>
             (w\<lparr>stderr := stderr w @ [AstParsing (rel_path f), FileReadError (abs_path f) exc]\<rparr>, cs)
         | Inr bs \<Rightarrow>
             if bs = [] then (w\<lparr>stderr := stderr w @ [AstParsing (rel_path f)]\<rparr>, cs)
             else
               (case fst (parse_file_with_tree_sitter
                            (w\<lparr>stderr := stderr w @ [AstParsing (rel_path f)]\<rparr>)
                            (rel_path f) (suffix f) bs) of
                  Inr file_chunks \<Rightarrow>
                    (snd (parse_file_with_tree_sitter
                            (w\<lparr>stderr := stderr w @ [AstParsing (rel_path f)]\<rparr>)
                            (rel_path f) (suffix f) bs), cs @ file_chunks)
                | Inl e \<Rightarrow>
                    ((snd (parse_file_with_tree_sitter
                             (w\<lparr>stderr := stderr w @ [AstParsing (rel_path f)]\<rparr>)
                             (rel_path f) (suffix f) bs))
                       \<lparr>stderr :=
                          stderr (snd (parse_file_with_tree_sitter
                                         (w\<lparr>stderr := stderr w @ [AstParsing (rel_path f)]\<rparr>)
                                         (rel_path f) (suffix f) bs))
                          @ [CriticalError (rel_path f) e]\<rparr>, cs)))
      else if suffix f \<in> set AST_PARSE_EXTS then
        (w\<lparr>stderr := stderr w @ [SkippingAst (rel_path f)]\<rparr>, cs)
      else (w, cs))"
  by (auto simp: scan_file_def Let_def split: sum.splits prod.splits)

lemma scan_file_reports:
  "filter (reports_load_failure ext) (stderr (fst (scan_file f (w, cs))))
   = filter (reports_load_failure ext) (stderr w)"
  by (simp add: scan_file_parsed parse_file_reports split: sum.splits)

lemma scan_file_log:
  "\<exists>new. stderr (fst (scan_file f (w, cs))) = stderr w @ new"
proof -
  have j: "\<exists>new. stderr (snd (parse_file_with_tree_sitter
                            (w\<lparr>stderr := stderr w @ [AstParsing (rel_path f)]\<rparr>)
                            (rel_path f) (suffix f) bs)) = stderr w @ new" for bs
    using parse_file_log[of "w\<lparr>stderr := stderr w @ [AstParsing (rel_path f)]\<rparr>"
        "rel_path f" "suffix f" bs]
    by auto
  then have k: "\<exists>new. stderr (snd (parse_file_with_tree_sitter
                            (w\<lparr>stderr := stderr w @ [AstParsing (rel_path f)]\<rparr>)
                            (rel_path f) (suffix f) bs)) @ [ev] = stderr w @ new" for bs ev
    by (metis append_assoc)
  from j k show ?thesis
    by (auto simp: scan_file_parsed split: sum.splits)
qed

lemma scan_file_LANGUAGES: "LANGUAGES (fst (scan_file f (w, cs))) = LANGUAGES w"
  by (simp add: scan_file_parsed parse_file_LANGUAGES split: sum.splits)

lemma scan_file_chunks:
  assumes "LANGUAGES w = LANGUAGES w'"
  shows "snd (scan_file f (w, cs)) = snd (scan_file f (w', cs))"
proof -
  have p: "fst (parse_file_with_tree_sitter (w\<lparr>stderr := stderr w @ [AstParsing (rel_path f)]\<rparr>)
                (rel_path f) (suffix f) bs)
         = fst (parse_file_with_tree_sitter (w'\<lparr>stderr := stderr w' @ [AstParsing (rel_path f)]\<rparr>)
                (rel_path f) (suffix f) bs)" for bs
    using assms by (intro parse_file_chunks) simp
  show ?thesis
    by (simp add: scan_file_parsed p assms split: sum.splits)
qed

lemma scan_loop_reports:
  "filter (reports_load_failure ext) (stderr (fst (scan_loop fs (w, cs))))
   = filter (reports_load_failure ext) (stderr w)"
proof (induction fs arbitrary: w cs)
  case Nil
  show ?case by simp
next
  case (Cons f fs)
  obtain w1 c1 where a: "scan_file f (w, cs) = (w1, c1)" by (cases "scan_file f (w, cs)") auto
  with scan_file_reports[of ext f w cs] Cons.IH[of w1 c1] show ?case by simp
qed

lemma scan_loop_log:
  "\<exists>new. stderr (fst (scan_loop fs (w, cs))) = stderr w @ new"
proof (induction fs arbitrary: w cs)
  case Nil
  show ?case by simp
next
  case (Cons f fs)
  obtain w1 c1 where a: "scan_file f (w, cs) = (w1, c1)" by (cases "scan_file f (w, cs)") auto
  with scan_file_log[of f w cs] obtain n1 where n1: "stderr w1 = stderr w @ n1" by auto
  from Cons.IH[of w1 c1] obtain n2 where "stderr (fst (scan_loop fs (w1, c1))) = stderr w1 @ n2"
    by blast
  with a n1 show ?case by simp
qed

lemma scan_loop_chunks:
  "LANGUAGES w = LANGUAGES w' \<Longrightarrow> snd (scan_loop fs (w, cs)) = snd (scan_loop fs (w', cs))"
proof (induction fs arbitrary: w w' cs)
  case Nil
  show ?case by simp
next
  case (Cons f fs)
  obtain w1 c1 where a: "scan_file f (w, cs) = (w1, c1)" by (cases "scan_file f (w, cs)") auto
  obtain w2 c2 where b: "scan_file f (w', cs) = (w2, c2)" by (cases "scan_file f (w', cs)") auto
  from a b scan_file_chunks[OF Cons.prems, of f cs] have c: "c1 = c2" by simp
  from a b scan_file_LANGUAGES[of f w cs] scan_file_LANGUAGES[of f w' cs] Cons.prems
  have "LANGUAGES w1 = LANGUAGES w2" by simp
  from Cons.IH[OF this, of c1] a b c show ?case by simp
qed

lemma scan_file_unusable:
  assumes "map_of (LANGUAGES w) (suffix f) = None \<or>
           (\<exists>obj e. map_of (LANGUAGES w) (suffix f) = Some obj \<and> set_language obj = Some e)"
  shows "snd (scan_file f (w, cs)) = cs"
  using assms
proof
  assume "map_of (LANGUAGES w) (suffix f) = None"
  then show ?thesis by (simp add: scan_file_parsed)
next
  assume "\<exists>obj e. map_of (LANGUAGES w) (suffix f) = Some obj \<and> set_language obj = Some e"
  then obtain obj e where o: "map_of (LANGUAGES w) (suffix f) = Some obj" "set_language obj = Some e"
    by blast
  then have "parse_file_with_tree_sitter (w\<lparr>stderr := stderr w @ [AstParsing (rel_path f)]\<rparr>)
               (rel_path f) (suffix f) bs
             = (Inl e, w\<lparr>stderr := stderr w @ [AstParsing (rel_path f)]\<rparr>)" for bs
    by (intro parse_file_rejected) simp_all
  then show ?thesis by (simp add: scan_file_parsed split: sum.splits)
qed

lemma scan_loop_unusable:
  assumes "map_of (LANGUAGES w) ext = None \<or>
           (\<exists>obj e. map_of (LANGUAGES w) ext = Some obj \<and> set_language obj = Some e)"
  shows "snd (scan_loop fs (w, cs)) = snd (scan_loop (filter (\<lambda>f. suffix f \<noteq> ext) fs) (w, cs))"
  using assms
proof (induction fs arbitrary: w cs)
  case Nil
  show ?case by simp
next
  case (Cons f fs)
  obtain w1 c1 where a: "scan_file f (w, cs) = (w1, c1)" by (cases "scan_file f (w, cs)") auto
  from a scan_file_LANGUAGES[of f w cs] have L: "LANGUAGES w1 = LANGUAGES w" by simp
  with Cons.prems have n1: "map_of (LANGUAGES w1) ext = None \<or>
           (\<exists>obj e. map_of (LANGUAGES w1) ext = Some obj \<and> set_language obj = Some e)" by simp
  show ?case
  proof (cases "suffix f = ext")
    case True
    with Cons.prems a scan_file_unusable[of w f cs] have "c1 = cs" by simp
    with a True Cons.IH[OF n1, of cs] scan_loop_chunks[OF L, of "filter (\<lambda>f. suffix f \<noteq> ext) fs" cs]
    show ?thesis by simp
  next
    case False
    with a Cons.IH[OF n1, of c1] show ?thesis by simp
  qed
qed

lemma scan_loop_keeps:
  "ev \<in> set (stderr w) \<Longrightarrow> ev \<in> set (stderr (fst (scan_loop fs (w, cs))))"
  using scan_loop_log[of fs w cs] by auto

lemma scan_loop_notices:
  assumes "map_of (LANGUAGES w) ext = None" and "ext \<in> set AST_PARSE_EXTS"
    and "f \<in> set fs" and "\<not> is_test f" and "suffix f = ext"
  shows "SkippingAst (rel_path f) \<in> set (stderr (fst (scan_loop fs (w, cs))))"
  using assms(1,3)
proof (induction fs arbitrary: w cs)
  case Nil
  then show ?case by simp
next
  case (Cons g fs)
  obtain w1 c1 where a: "scan_file g (w, cs) = (w1, c1)" by (cases "scan_file g (w, cs)") auto
  from a scan_file_LANGUAGES[of g w cs] Cons.prems(1)
  have n1: "map_of (LANGUAGES w1) ext = None" by simp
  show ?case
  proof (cases "f = g")
    case True
    with assms(2,4,5) Cons.prems(1) a have "SkippingAst (rel_path f) \<in> set (stderr w1)"
      by (auto simp: scan_file_parsed)
    from scan_loop_keeps[OF this, of fs c1] a show ?thesis by simp
  next
    case False
    with Cons.prems(2) have "f \<in> set fs" by simp
    from Cons.IH[OF n1 this, of c1] a show ?thesis by simp
  qed
qed

lemma scan_loop_criticals:
  assumes "map_of (LANGUAGES w) ext = Some obj" and "set_language obj = Some e"
    and "ext \<in> set AST_PARSE_EXTS"
    and "f \<in> set fs" and "\<not> is_test f" and "suffix f = ext"
    and "read_result f = Inr bs" and "bs \<noteq> []"
  shows "CriticalError (rel_path f) e \<in> set (stderr (fst (scan_loop fs (w, cs))))"
  using assms(1,4)
proof (induction fs arbitrary: w cs)
  case Nil
  then show ?case by simp
next
  case (Cons g fs)
  obtain w1 c1 where a: "scan_file g (w, cs) = (w1, c1)" by (cases "scan_file g (w, cs)") auto
  from a scan_file_LANGUAGES[of g w cs] Cons.prems(1)
  have n1: "map_of (LANGUAGES w1) ext = Some obj" by simp
  show ?case
  proof (cases "f = g")
    case True
    have "parse_file_with_tree_sitter (w\<lparr>stderr := stderr w @ [AstParsing (rel_path f)]\<rparr>)
               (rel_path f) ext bs
             = (Inl e, w\<lparr>stderr := stderr w @ [AstParsing (rel_path f)]\<rparr>)"
      using Cons.prems(1) assms(2) by (intro parse_file_rejected) simp_all
    with True assms(3,5,6,7,8) Cons.prems(1) a have "CriticalError (rel_path f) e \<in> set (stderr w1)"
      by (auto simp: scan_file_parsed)
    from scan_loop_keeps[OF this, of fs c1] a show ?thesis by simp
  next
    case False
    with Cons.prems(2) have "f \<in> set fs" by simp
    from Cons.IH[OF n1 this, of c1] a show ?thesis by simp
  qed
qed

lemma config_entry:
  "(ext, lang_name) \<in> set LANGUAGE_GRAMMARS_CONFIG \<Longrightarrow>
   (ext = ''.java'' \<and> lang_name = ''java'') \<or> (ext = ''.py'' \<and> lang_name = ''python'') \<or>
   (ext = ''.js'' \<and> lang_name = ''javascript'') \<or> (ext = ''.ts'' \<and> lang_name = ''typescript'')"
  by (auto simp: LANGUAGE_GRAMMARS_CONFIG_def)

lemma config_split:
  assumes "(ext, lang_name) \<in> set LANGUAGE_GRAMMARS_CONFIG"
  obtains pre post where "LANGUAGE_GRAMMARS_CONFIG = pre @ (ext, lang_name) # post"
    and "ext \<notin> fst ` set pre" and "ext \<notin> fst ` set post" and "ext \<in> set AST_PARSE_EXTS"
proof -
  from config_entry[OF assms]
  consider "ext = ''.java'' \<and> lang_name = ''java''" | "ext = ''.py'' \<and> lang_name = ''python''"
    | "ext = ''.js'' \<and> lang_name = ''javascript''" | "ext = ''.ts'' \<and> lang_name = ''typescript''"
    by blast
  then show ?thesis
  proof cases
    case 1
    show ?thesis
      by (rule that[of "[]" "[(''.py'', ''python''), (''.js'', ''javascript''), (''.ts'', ''typescript'')]"])
         (simp_all add: 1 LANGUAGE_GRAMMARS_CONFIG_def AST_PARSE_EXTS_def)
  next
    case 2
    show ?thesis
      by (rule that[of "[(''.java'', ''java'')]" "[(''.js'', ''javascript''), (''.ts'', ''typescript'')]"])
         (simp_all add: 2 LANGUAGE_GRAMMARS_CONFIG_def AST_PARSE_EXTS_def)
  next
    case 3
    show ?thesis
      by (rule that[of "[(''.java'', ''java''), (''.py'', ''python'')]" "[(''.ts'', ''typescript'')]"])
         (simp_all add: 3 LANGUAGE_GRAMMARS_CONFIG_def AST_PARSE_EXTS_def)
  next
    case 4
    show ?thesis
      by (rule that[of "[(''.java'', ''java''), (''.py'', ''python''), (''.js'', ''javascript'')]" "[]"])
         (simp_all add: 4 LANGUAGE_GRAMMARS_CONFIG_def AST_PARSE_EXTS_def)
  qed
qed

lemma load_loop_append:
  "load_loop env (xs @ ys) w = load_loop env ys (load_loop env xs w)"
  by (induction xs arbitrary: w) (auto split: sum.splits)

lemma load_loop_other:
  "ext \<notin> fst ` set items \<Longrightarrow>
   map_of (LANGUAGES (load_loop env items w)) ext = map_of (LANGUAGES w) ext \<and>
   filter (reports_load_failure ext) (stderr (load_loop env items w))
     = filter (reports_load_failure ext) (stderr w)"
proof (induction items arbitrary: w)
  case Nil
  show ?case by simp
next
  case (Cons item items)
  obtain x ln where item: "item = (x, ln)" by (cases item) auto
  with Cons.prems have x: "x \<noteq> ext" and rest: "ext \<notin> fst ` set items" by auto
  show ?case
  proof (cases "x \<in> set AST_PARSE_EXTS")
    case False
    with item Cons.IH[OF rest, of w] show ?thesis by simp
  next
    case True
    show ?thesis
    proof (cases "Language env ln")
      case (Inl e)
      with True item x
        Cons.IH[OF rest, of "w\<lparr>stderr := stderr w @ [GrammarLoadError ln x e, ParsingWillBeSkipped x]\<rparr>"]
      show ?thesis by simp
    next
      case (Inr obj)
      with True item x
        Cons.IH[OF rest, of "w\<lparr>LANGUAGES := AList.update x obj (LANGUAGES w),
                                 stderr := stderr w @ [GrammarLoaded ln x]\<rparr>"]
      show ?thesis by (simp add: update_conv')
    qed
  qed
qed

lemma load_loop_entry:
  assumes "(ext, lang_name) \<in> set LANGUAGE_GRAMMARS_CONFIG"
  shows "(case Language env lang_name of
            Inl e \<Rightarrow>
              map_of (LANGUAGES (load_loop env LANGUAGE_GRAMMARS_CONFIG \<lparr>LANGUAGES = [], stderr = []\<rparr>)) ext
                = None \<and>
              length (filter (reports_load_failure ext)
                        (stderr (load_loop env LANGUAGE_GRAMMARS_CONFIG \<lparr>LANGUAGES = [], stderr = []\<rparr>)))
                = 1
          | Inr obj \<Rightarrow>
              map_of (LANGUAGES (load_loop env LANGUAGE_GRAMMARS_CONFIG \<lparr>LANGUAGES = [], stderr = []\<rparr>)) ext
                = Some obj \<and>
              filter (reports_load_failure ext)
                (stderr (load_loop env LANGUAGE_GRAMMARS_CONFIG \<lparr>LANGUAGES = [], stderr = []\<rparr>))
                = [])"
proof -
  from assms obtain pre post where
    split: "LANGUAGE_GRAMMARS_CONFIG = pre @ (ext, lang_name) # post" and
    pre: "ext \<notin> fst ` set pre" and post: "ext \<notin> fst ` set post" and
    ext: "ext \<in> set AST_PARSE_EXTS"
    by (rule config_split)
  let ?w0 = "\<lparr>LANGUAGES = [], stderr = []\<rparr> :: 'a world"
  let ?w1 = "load_loop env pre ?w0"
  from load_loop_other[OF pre, of env ?w0]
  have 1: "map_of (LANGUAGES ?w1) ext = None"
    and 2: "filter (reports_load_failure ext) (stderr ?w1) = []" by simp_all
  show ?thesis
  proof (cases "Language env lang_name")
    case (Inl e)
    let ?w2 = "?w1\<lparr>stderr := stderr ?w1 @ [GrammarLoadError lang_name ext e, ParsingWillBeSkipped ext]\<rparr>"
    from ext Inl have step:
      "load_loop env (pre @ (ext, lang_name) # post) ?w0 = load_loop env post ?w2"
      by (simp add: load_loop_append)
    from load_loop_other[OF post, of env ?w2] 1 2 Inl
    show ?thesis unfolding split step by simp
  next
    case (Inr obj)
    let ?w2 = "?w1\<lparr>LANGUAGES := AList.update ext obj (LANGUAGES ?w1),
                    stderr := stderr ?w1 @ [GrammarLoaded lang_name ext]\<rparr>"
    from ext Inr have step:
      "load_loop env (pre @ (ext, lang_name) # post) ?w0 = load_loop env post ?w2"
      by (simp add: load_loop_append)
    from load_loop_other[OF post, of env ?w2] 1 2 Inr
    show ?thesis unfolding split step by (simp add: update_conv')
  qed
qed

lemma scan_start_failed:
  assumes "(ext, lang_name) \<in> set LANGUAGE_GRAMMARS_CONFIG"
    and "\<not> grammar_file_exists env \<or> (\<exists>e. Language env lang_name = Inl e)"
  shows "\<exists>w. (\<forall>files. scan env files = scan_loop files (w, [])) \<and>
             map_of (LANGUAGES w) ext = None \<and>
             length (filter (reports_load_failure ext) (stderr w)) = 1"
proof (cases "grammar_file_exists env")
  case False
  let ?w = "\<lparr>LANGUAGES = [], stderr = [GrammarFileNotFound, PleaseCompileGrammars, IncompleteWarning]\<rparr>
              :: 'a world"
  from False have "\<forall>files. scan env files = scan_loop files (?w, [])"
    by (simp add: scan_def load_tree_sitter_languages_def LANGUAGE_GRAMMARS_CONFIG_def
        AST_PARSE_EXTS_def)
  then show ?thesis by (intro exI[of _ ?w]) simp
next
  case True
  with assms(2) obtain e where e: "Language env lang_name = Inl e" by blast
  let ?w1 = "load_loop env LANGUAGE_GRAMMARS_CONFIG \<lparr>LANGUAGES = [], stderr = []\<rparr>"
  let ?w = "if LANGUAGES ?w1 = [] then ?w1\<lparr>stderr := stderr ?w1 @ [IncompleteWarning]\<rparr> else ?w1"
  have any: "list_ex (\<lambda>ext. ext \<in> set AST_PARSE_EXTS) (map fst LANGUAGE_GRAMMARS_CONFIG)"
    by (simp add: LANGUAGE_GRAMMARS_CONFIG_def AST_PARSE_EXTS_def)
  from True any have "\<forall>files. scan env files = scan_loop files (?w, [])"
    by (simp add: scan_def load_tree_sitter_languages_def Let_def)
  moreover from load_loop_entry[OF assms(1), of env] e
  have "map_of (LANGUAGES ?w) ext = None \<and> length (filter (reports_load_failure ext) (stderr ?w)) = 1"
    by simp
  ultimately show ?thesis by blast
qed

lemma scan_start_loaded:
  assumes "(ext, lang_name) \<in> set LANGUAGE_GRAMMARS_CONFIG"
    and "grammar_file_exists env" and "Language env lang_name = Inr obj"
  shows "\<exists>w. (\<forall>files. scan env files = scan_loop files (w, [])) \<and>
             map_of (LANGUAGES w) ext = Some obj \<and>
             filter (reports_load_failure ext) (stderr w) = []"
proof -
  let ?w1 = "load_loop env LANGUAGE_GRAMMARS_CONFIG \<lparr>LANGUAGES = [], stderr = []\<rparr>"
  from load_loop_entry[OF assms(1), of env] assms(3)
  have l: "map_of (LANGUAGES ?w1) ext = Some obj"
    and r: "filter (reports_load_failure ext) (stderr ?w1) = []" by simp_all
  from l have "LANGUAGES ?w1 \<noteq> []" by auto
  with assms(2) have "\<forall>files. scan env files = scan_loop files (?w1, [])"
    by (simp add: scan_def load_tree_sitter_languages_def Let_def)
  with l r show ?thesis by blast
qed

lemma config_ext: "(ext, lang_name) \<in> set LANGUAGE_GRAMMARS_CONFIG \<Longrightarrow> ext \<in> set AST_PARSE_EXTS"
  by (auto simp: LANGUAGE_GRAMMARS_CONFIG_def AST_PARSE_EXTS_def)

text \<open>
  C5, with the reports the code prints. Take a configured language. If its grammar
  fails to load, because the compiled library is missing or because the constructor
  raises for it, then the loader's message that reports the failure for the language's
  extension occurs exactly once in the diagnostics of the scan, and in addition every
  visited file of the extension that is not a test file has its own notice that it is
  skipped (line 347). If the constructor returns a grammar that \<^verbatim>\<open>set_language\<close>
  rejects, the loader reports no failure, and every visited file of the extension that
  is not a test file and has been read with non-empty contents has its own
  \<^verbatim>\<open>Critical error\<close> line (line 344). In both cases the chunks of the scan are the
  chunks of the scan over the files of the other extensions: the files of the language
  contribute none, and the remaining files are processed as if those were absent.
\<close>
theorem unloaded_grammar_reports:
  assumes "(ext, lang_name) \<in> set LANGUAGE_GRAMMARS_CONFIG"
  shows "(\<not> grammar_file_exists env \<or> (\<exists>e. Language env lang_name = Inl e) \<longrightarrow>
            length (filter (reports_load_failure ext) (stderr (fst (scan env files)))) = 1 \<and>
            (\<forall>f \<in> set files. \<not> is_test f \<and> suffix f = ext \<longrightarrow>
               SkippingAst (rel_path f) \<in> set (stderr (fst (scan env files)))) \<and>
            snd (scan env files) = snd (scan env (filter (\<lambda>f. suffix f \<noteq> ext) files))) \<and>
         (\<forall>obj e. grammar_file_exists env \<and> Language env lang_name = Inr obj \<and>
                  set_language obj = Some e \<longrightarrow>
            filter (reports_load_failure ext) (stderr (fst (scan env files))) = [] \<and>
            (\<forall>f \<in> set files. \<not> is_test f \<and> suffix f = ext \<and>
                              (\<exists>bs. read_result f = Inr bs \<and> bs \<noteq> []) \<longrightarrow>
               CriticalError (rel_path f) e \<in> set (stderr (fst (scan env files)))) \<and>
            snd (scan env files) = snd (scan env (filter (\<lambda>f. suffix f \<noteq> ext) files)))"
proof (intro conjI impI allI)
  assume h: "\<not> grammar_file_exists env \<or> (\<exists>e. Language env lang_name = Inl e)"
  from scan_start_failed[OF assms h] obtain w where
    s: "\<And>files. scan env files = scan_loop files (w, [])" and
    n: "map_of (LANGUAGES w) ext = None" and
    r: "length (filter (reports_load_failure ext) (stderr w)) = 1"
    by blast
  from r show "length (filter (reports_load_failure ext) (stderr (fst (scan env files)))) = 1"
    by (simp add: s scan_loop_reports)
  show "\<forall>f \<in> set files. \<not> is_test f \<and> suffix f = ext \<longrightarrow>
               SkippingAst (rel_path f) \<in> set (stderr (fst (scan env files)))"
    using scan_loop_notices[OF n config_ext[OF assms]] by (auto simp: s)
  from scan_loop_unusable[of w ext files "[]"] n
  show "snd (scan env files) = snd (scan env (filter (\<lambda>f. suffix f \<noteq> ext) files))"
    by (simp add: s)
next
  fix obj e
  assume h: "grammar_file_exists env \<and> Language env lang_name = Inr obj \<and> set_language obj = Some e"
  from scan_start_loaded[OF assms, of env obj] h obtain w where
    s: "\<And>files. scan env files = scan_loop files (w, [])" and
    l: "map_of (LANGUAGES w) ext = Some obj" and
    r: "filter (reports_load_failure ext) (stderr w) = []"
    by blast
  from h have sl: "set_language obj = Some e" by simp
  from r show "filter (reports_load_failure ext) (stderr (fst (scan env files))) = []"
    by (simp add: s scan_loop_reports)
  show "\<forall>f \<in> set files. \<not> is_test f \<and> suffix f = ext \<and>
                              (\<exists>bs. read_result f = Inr bs \<and> bs \<noteq> []) \<longrightarrow>
               CriticalError (rel_path f) e \<in> set (stderr (fst (scan env files)))"
    using scan_loop_criticals[OF l sl config_ext[OF assms]] by (auto simp: s)
  from scan_loop_unusable[of w ext files "[]"] l sl
  show "snd (scan env files) = snd (scan env (filter (\<lambda>f. suffix f \<noteq> ext) files))"
    by (simp add: s)
qed

lemma example_load:
  "load_tree_sitter_languages example_environment \<lparr>LANGUAGES = [], stderr = []\<rparr> =
     (True,
      \<lparr>LANGUAGES = [(''.py'', binding_language [] [compute_match])],
       stderr = [GrammarLoadError ''java'' ''.java'' (LibraryError ''undefined symbol''),
                 ParsingWillBeSkipped ''.java'', GrammarLoaded ''python'' ''.py'',
                 GrammarLoadError ''javascript'' ''.js'' (LibraryError ''undefined symbol''),
                 ParsingWillBeSkipped ''.js'',
                 GrammarLoadError ''typescript'' ''.ts'' (LibraryError ''undefined symbol''),
                 ParsingWillBeSkipped ''.ts'']\<rparr>)"
  by (simp add: load_tree_sitter_languages_def example_environment_def LANGUAGE_GRAMMARS_CONFIG_def
      AST_PARSE_EXTS_def)

lemma outdated_load:
  "load_tree_sitter_languages outdated_environment \<lparr>LANGUAGES = [], stderr = []\<rparr> =
     (True,
      \<lparr>LANGUAGES = [(''.java'', outdated_java), (''.py'', binding_language [] [compute_match])],
       stderr = [GrammarLoaded ''java'' ''.java'', GrammarLoaded ''python'' ''.py'',
                 GrammarLoadError ''javascript'' ''.js'' (LibraryError ''undefined symbol''),
                 ParsingWillBeSkipped ''.js'',
                 GrammarLoadError ''typescript'' ''.ts'' (LibraryError ''undefined symbol''),
                 ParsingWillBeSkipped ''.ts'']\<rparr>)"
  by (simp add: load_tree_sitter_languages_def outdated_environment_def LANGUAGE_GRAMMARS_CONFIG_def
      AST_PARSE_EXTS_def)

lemma files_nonempty: "compute_bytes \<noteq> [] \<and> foo_bytes \<noteq> []"
  by (simp add: compute_bytes_def foo_bytes_def)

lemma binding_parse_py:
  "parse_file_with_tree_sitter
     \<lparr>LANGUAGES = pre @ [(''.py'', binding_language [] [compute_match])], stderr = log\<rparr>
     fpath ''.py'' bs =
   (Inr [],
    \<lparr>LANGUAGES = pre @ [(''.py'', binding_language [] [compute_match])],
     stderr = log @ [QueryProcessingError ''FUNCTION'' fpath ''python'' AttributeError,
                     QueryWas ''(function_definition name: (identifier) @name)'']\<rparr>)"
  if "map_of pre ''.py'' = None"
proof -
  have s: "set_language (binding_language [] ms) = None \<and>
           parse (binding_language [] ms) bs = Inr ()" for ms
    by (simp add: binding_language_def)
  from that show ?thesis
    by (simp add: parse_file_with_tree_sitter_def s LANGUAGE_GRAMMARS_CONFIG_def AST_QUERIES_def
        binding_class_body binding_function_body compute_match_def map_add_def)
qed

lemma example_scan:
  "snd (scan example_environment example_files) = [] \<and>
   stderr (fst (scan example_environment example_files)) =
     [GrammarLoadError ''java'' ''.java'' (LibraryError ''undefined symbol''),
      ParsingWillBeSkipped ''.java'', GrammarLoaded ''python'' ''.py'',
      GrammarLoadError ''javascript'' ''.js'' (LibraryError ''undefined symbol''),
      ParsingWillBeSkipped ''.js'',
      GrammarLoadError ''typescript'' ''.ts'' (LibraryError ''undefined symbol''),
      ParsingWillBeSkipped ''.ts'', SkippingAst ''A.java'', AstParsing ''compute.py'',
      QueryProcessingError ''FUNCTION'' ''compute.py'' ''python'' AttributeError,
      QueryWas ''(function_definition name: (identifier) @name)'',
      SkippingAst ''B.java'']"
  using binding_parse_py[of "[]"]
  by (simp add: scan_def example_load example_files_def scan_file_parsed AST_PARSE_EXTS_def
      files_nonempty Let_def)

lemma outdated_scan:
  "snd (scan outdated_environment example_files) = [] \<and>
   stderr (fst (scan outdated_environment example_files)) =
     [GrammarLoaded ''java'' ''.java'', GrammarLoaded ''python'' ''.py'',
      GrammarLoadError ''javascript'' ''.js'' (LibraryError ''undefined symbol''),
      ParsingWillBeSkipped ''.js'',
      GrammarLoadError ''typescript'' ''.ts'' (LibraryError ''undefined symbol''),
      ParsingWillBeSkipped ''.ts'',
      AstParsing ''A.java'', CriticalError ''A.java'' ValueError,
      AstParsing ''compute.py'',
      QueryProcessingError ''FUNCTION'' ''compute.py'' ''python'' AttributeError,
      QueryWas ''(function_definition name: (identifier) @name)'',
      AstParsing ''B.java'', CriticalError ''B.java'' ValueError]"
proof -
  have j: "parse_file_with_tree_sitter
             \<lparr>LANGUAGES = [(''.java'', outdated_java), (''.py'', binding_language [] [compute_match])],
              stderr = log\<rparr> fpath ''.java'' bs
           = (Inl ValueError,
              \<lparr>LANGUAGES = [(''.java'', outdated_java), (''.py'', binding_language [] [compute_match])],
               stderr = log\<rparr>)" for log fpath bs
    by (rule parse_file_rejected[where obj = outdated_java]) (simp_all add: outdated_java_def)
  show ?thesis
    using binding_parse_py[of "[(''.java'', outdated_java)]"] j
    by (simp add: scan_def outdated_load example_files_def scan_file_parsed AST_PARSE_EXTS_def
        files_nonempty Let_def)
qed

lemma example_java_entry: "(''.java'', ''java'') \<in> set LANGUAGE_GRAMMARS_CONFIG"
  by (simp add: LANGUAGE_GRAMMARS_CONFIG_def)

lemma example_java_fails:
  "Language example_environment ''java'' = Inl (LibraryError ''undefined symbol'')"
  by (simp add: example_environment_def)

lemma outdated_java_loads:
  "grammar_file_exists outdated_environment \<and>
   Language outdated_environment ''java'' = Inr outdated_java \<and>
   set_language outdated_java = Some ValueError"
  by (simp add: outdated_environment_def outdated_java_def)

lemma example_java_files:
  "filter (\<lambda>f. suffix f \<noteq> ''.java'') example_files =
     [\<lparr>abs_path = ''repo/compute.py'', rel_path = ''compute.py'', suffix = ''.py'', is_test = False,
       read_result = Inr compute_bytes\<rparr>]"
  by (simp add: example_files_def)

theorem unloaded_grammar_reports_witness:
  "(''.java'', ''java'') \<in> set LANGUAGE_GRAMMARS_CONFIG \<and>
   Language example_environment ''java'' = Inl (LibraryError ''undefined symbol'') \<and>
   length (filter (reports_load_failure ''.java'')
             (stderr (fst (scan example_environment example_files)))) = 1 \<and>
   SkippingAst ''A.java'' \<in> set (stderr (fst (scan example_environment example_files))) \<and>
   SkippingAst ''B.java'' \<in> set (stderr (fst (scan example_environment example_files))) \<and>
   snd (scan example_environment (filter (\<lambda>f. suffix f \<noteq> ''.java'') example_files)) = [] \<and>
   grammar_file_exists outdated_environment \<and>
   Language outdated_environment ''java'' = Inr outdated_java \<and>
   set_language outdated_java = Some ValueError \<and>
   filter (reports_load_failure ''.java'')
     (stderr (fst (scan outdated_environment example_files))) = [] \<and>
   CriticalError ''A.java'' ValueError \<in> set (stderr (fst (scan outdated_environment example_files))) \<and>
   CriticalError ''B.java'' ValueError \<in> set (stderr (fst (scan outdated_environment example_files))) \<and>
   snd (scan outdated_environment (filter (\<lambda>f. suffix f \<noteq> ''.java'') example_files)) = []"
proof -
  note a = unloaded_grammar_reports[OF example_java_entry, of example_environment example_files]
  note b = unloaded_grammar_reports[OF example_java_entry, of outdated_environment example_files]
  have fa: "\<not> grammar_file_exists example_environment \<or>
            (\<exists>e. Language example_environment ''java'' = Inl e)"
    using example_java_fails by blast
  from a fa have a1:
    "length (filter (reports_load_failure ''.java'')
               (stderr (fst (scan example_environment example_files)))) = 1"
    and a2: "\<forall>f \<in> set example_files. \<not> is_test f \<and> suffix f = ''.java'' \<longrightarrow>
               SkippingAst (rel_path f) \<in> set (stderr (fst (scan example_environment example_files)))"
    and a3: "snd (scan example_environment example_files)
             = snd (scan example_environment (filter (\<lambda>f. suffix f \<noteq> ''.java'') example_files))"
    by blast+
  from b outdated_java_loads have b1:
    "filter (reports_load_failure ''.java'')
       (stderr (fst (scan outdated_environment example_files))) = []"
    and b2: "\<forall>f \<in> set example_files. \<not> is_test f \<and> suffix f = ''.java'' \<and>
                              (\<exists>bs. read_result f = Inr bs \<and> bs \<noteq> []) \<longrightarrow>
               CriticalError (rel_path f) ValueError
                 \<in> set (stderr (fst (scan outdated_environment example_files)))"
    and b3: "snd (scan outdated_environment example_files)
             = snd (scan outdated_environment (filter (\<lambda>f. suffix f \<noteq> ''.java'') example_files))"
    by blast+
  from a2 have a2': "SkippingAst ''A.java'' \<in> set (stderr (fst (scan example_environment example_files)))
        \<and> SkippingAst ''B.java'' \<in> set (stderr (fst (scan example_environment example_files)))"
    by (simp add: example_files_def)
  from b2 have b2': "CriticalError ''A.java'' ValueError
                       \<in> set (stderr (fst (scan outdated_environment example_files)))
        \<and> CriticalError ''B.java'' ValueError
                       \<in> set (stderr (fst (scan outdated_environment example_files)))"
    by (simp add: example_files_def files_nonempty)
  from a3 example_scan have a3':
    "snd (scan example_environment (filter (\<lambda>f. suffix f \<noteq> ''.java'') example_files)) = []"
    by simp
  from b3 outdated_scan have b3':
    "snd (scan outdated_environment (filter (\<lambda>f. suffix f \<noteq> ''.java'') example_files)) = []"
    by simp
  from example_java_entry example_java_fails a1 a2' a3' outdated_java_loads b1 b2' b3'
  show ?thesis by blast
qed

text \<open>
  C5 as it is stated, with the failure reported once per language and not once per
  file, does not hold. In the first example scan the Java grammar fails to load and two
  Java files are visited: three diagnostics tell that the grammar for \<^verbatim>\<open>.java\<close> is not
  loaded, the loader's message and one notice per file. In the second the Java grammar
  is of an incompatible version: no diagnostic tells that it is not loaded, and the
  failure is reported once per Java file, by the \<^verbatim>\<open>Critical error\<close> line.
\<close>
theorem reported_once_counterexample:
  "Language example_environment ''java'' = Inl (LibraryError ''undefined symbol'') \<and>
   stderr (fst (scan example_environment example_files)) =
     [GrammarLoadError ''java'' ''.java'' (LibraryError ''undefined symbol''),
      ParsingWillBeSkipped ''.java'', GrammarLoaded ''python'' ''.py'',
      GrammarLoadError ''javascript'' ''.js'' (LibraryError ''undefined symbol''),
      ParsingWillBeSkipped ''.js'',
      GrammarLoadError ''typescript'' ''.ts'' (LibraryError ''undefined symbol''),
      ParsingWillBeSkipped ''.ts'', SkippingAst ''A.java'', AstParsing ''compute.py'',
      QueryProcessingError ''FUNCTION'' ''compute.py'' ''python'' AttributeError,
      QueryWas ''(function_definition name: (identifier) @name)'',
      SkippingAst ''B.java''] \<and>
   filter (reports_not_loaded ''.java'') (stderr (fst (scan example_environment example_files))) =
     [GrammarLoadError ''java'' ''.java'' (LibraryError ''undefined symbol''),
      SkippingAst ''A.java'', SkippingAst ''B.java''] \<and>
   length (filter (reports_not_loaded ''.java'')
             (stderr (fst (scan example_environment example_files)))) = 3 \<and>
   Language outdated_environment ''java'' = Inr outdated_java \<and>
   set_language outdated_java = Some ValueError \<and>
   stderr (fst (scan outdated_environment example_files)) =
     [GrammarLoaded ''java'' ''.java'', GrammarLoaded ''python'' ''.py'',
      GrammarLoadError ''javascript'' ''.js'' (LibraryError ''undefined symbol''),
      ParsingWillBeSkipped ''.js'',
      GrammarLoadError ''typescript'' ''.ts'' (LibraryError ''undefined symbol''),
      ParsingWillBeSkipped ''.ts'',
      AstParsing ''A.java'', CriticalError ''A.java'' ValueError,
      AstParsing ''compute.py'',
      QueryProcessingError ''FUNCTION'' ''compute.py'' ''python'' AttributeError,
      QueryWas ''(function_definition name: (identifier) @name)'',
      AstParsing ''B.java'', CriticalError ''B.java'' ValueError] \<and>
   length (filter (reports_not_loaded ''.java'')
             (stderr (fst (scan outdated_environment example_files)))) = 0"
proof -
  have 1: "filter (reports_not_loaded ''.java'') (stderr (fst (scan example_environment example_files))) =
     [GrammarLoadError ''java'' ''.java'' (LibraryError ''undefined symbol''),
      SkippingAst ''A.java'', SkippingAst ''B.java'']"
    using example_scan by (simp add: ends_with_def)
  have 2: "length (filter (reports_not_loaded ''.java'')
             (stderr (fst (scan outdated_environment example_files)))) = 0"
    using outdated_scan by (simp add: ends_with_def)
  from 1 have 3: "length (filter (reports_not_loaded ''.java'')
             (stderr (fst (scan example_environment example_files)))) = 3"
    by simp
  from 1 2 3 example_scan outdated_scan example_java_fails outdated_java_loads
  show ?thesis by blast
qed

end
